theory Spec2Isabelle
  imports Complex_Main "HOL-Library.AList"
begin

section \<open>The option dictionary\<close>

text \<open>
  \<^verbatim>\<open>opt\<close> is the dictionary that \<^verbatim>\<open>setup_args().parse_args()\<close> returns. The parser gives
  every training-loop argument a fixed type, so the dictionary is a record with one field
  per argument that the training loop reads; the field for key \<^verbatim>\<open>k\<close> is \<open>opt_k\<close>.
  Python floats are modelled as reals and Python ints as integers.
  \<^verbatim>\<open>model_file\<close> and \<^verbatim>\<open>dict_file\<close> may be \<^verbatim>\<open>None\<close>, and
  \<^verbatim>\<open>validation_metric_mode\<close> has no default.
\<close>

record opts =
  opt_display_examples :: bool
  opt_num_epochs :: real
  opt_max_train_time :: real
  opt_log_every_n_secs :: real
  opt_validation_every_n_secs :: real
  opt_save_every_n_secs :: real
  opt_save_after_valid :: bool
  opt_validation_every_n_epochs :: real
  opt_validation_max_exs :: int
  opt_short_final_eval :: bool
  opt_validation_patience :: int
  opt_validation_metric :: string
  opt_validation_metric_mode :: "string option"
  opt_validation_cutoff :: real
  opt_load_from_checkpoint :: bool
  opt_tensorboard_log :: bool
  opt_model_file :: "string option"
  opt_dict_file :: "string option"
  opt_init_model :: "string option"

text \<open>Truth value of \<^verbatim>\<open>opt.get(key)\<close> for a string-valued key: \<^verbatim>\<open>None\<close> and the
  empty string are false.\<close>

definition truthy :: "string option \<Rightarrow> bool" where
  "truthy s = (case s of None \<Rightarrow> False | Some x \<Rightarrow> x \<noteq> [])"

text \<open>\<^verbatim>\<open>opt['model_file']\<close> where the code has checked that it is set.\<close>

definition model_path :: "opts \<Rightarrow> string" where
  "model_path opt = (case opt_model_file opt of None \<Rightarrow> [] | Some p \<Rightarrow> p)"

text \<open>\<^verbatim>\<open>opt.get(key)\<close> on the float-valued keys declared by \<^verbatim>\<open>setup_args\<close>: a key that
  \<^verbatim>\<open>setup_args\<close> does not declare is absent.\<close>

definition opt_get :: "opts \<Rightarrow> string \<Rightarrow> real option" where
  "opt_get opt key = map_of
     [(''num_epochs'', opt_num_epochs opt),
      (''max_train_time'', opt_max_train_time opt),
      (''log_every_n_secs'', opt_log_every_n_secs opt),
      (''validation_every_n_secs'', opt_validation_every_n_secs opt),
      (''save_every_n_secs'', opt_save_every_n_secs opt),
      (''validation_every_n_epochs'', opt_validation_every_n_epochs opt),
      (''validation_cutoff'', opt_validation_cutoff opt)] key"

text \<open>\<^verbatim>\<open>opt.get(key, default)\<close>.\<close>

definition opt_get_default :: "opts \<Rightarrow> string \<Rightarrow> real \<Rightarrow> real" where
  "opt_get_default opt key d = (case opt_get opt key of None \<Rightarrow> d | Some v \<Rightarrow> v)"

section \<open>Thresholds\<close>

text \<open>A threshold of the loop is a float that may be \<^verbatim>\<open>float('inf')\<close>.\<close>

datatype bound = Fin real | PosInf

text \<open>\<^verbatim>\<open>x > b\<close> and \<^verbatim>\<open>x >= b\<close> for a finite reading \<open>x\<close>.\<close>

fun exceeds :: "real \<Rightarrow> bound \<Rightarrow> bool" where
  "exceeds x (Fin b) = (x > b)"
| "exceeds x PosInf = False"

fun reaches :: "real \<Rightarrow> bound \<Rightarrow> bool" where
  "reaches x (Fin b) = (x \<ge> b)"
| "reaches x PosInf = False"

text \<open>\<^verbatim>\<open>v if v > 0 else float('inf')\<close> (\<^verbatim>\<open>TrainLoop.__init__\<close>, lines 361-382).\<close>

definition positive_or_inf :: "real \<Rightarrow> bound" where
  "positive_or_inf v = (if v > 0 then Fin v else PosInf)"

section \<open>Estimated time remaining\<close>

text \<open>\<^verbatim>\<open>TrainLoop._compute_eta\<close> (lines 574-597). The two budgets are read with
  \<^verbatim>\<open>self.opt.get('num_epochs', 0)\<close> and \<^verbatim>\<open>self.opt.get('max_training_time', -1)\<close>.\<close>

definition compute_eta :: "opts \<Rightarrow> real \<Rightarrow> real \<Rightarrow> real option" where
  "compute_eta opt epochs_completed time_elapsed =
     (let eta0 = None;
          max_epochs = opt_get_default opt ''num_epochs'' 0;
          eta1 = (if max_epochs > 0 \<and> epochs_completed > 0
                  then (let epoch_progress = epochs_completed / max_epochs
                        in Some ((1 - epoch_progress) * time_elapsed / epoch_progress))
                  else eta0);
          max_training_time = opt_get_default opt ''max_training_time'' (- 1)
      in if max_training_time > 0
         then (let time_left = max_training_time - time_elapsed
               in case eta1 of
                    None \<Rightarrow> Some time_left
                  | Some e \<Rightarrow> if time_left < e then Some time_left else Some e)
         else eta1)"

text \<open>The options a run gets when only the named budgets are given on the command line;
  every other argument has the default of \<^verbatim>\<open>setup_args\<close>.\<close>

definition default_opts :: opts where
  "default_opts =
     \<lparr> opt_display_examples = False,
       opt_num_epochs = - 1,
       opt_max_train_time = - 1,
       opt_log_every_n_secs = 2,
       opt_validation_every_n_secs = - 1,
       opt_save_every_n_secs = - 1,
       opt_save_after_valid = False,
       opt_validation_every_n_epochs = - 1,
       opt_validation_max_exs = - 1,
       opt_short_final_eval = False,
       opt_validation_patience = 10,
       opt_validation_metric = ''accuracy'',
       opt_validation_metric_mode = None,
       opt_validation_cutoff = 1,
       opt_load_from_checkpoint = False,
       opt_tensorboard_log = False,
       opt_model_file = None,
       opt_dict_file = None,
       opt_init_model = None \<rparr>"

section \<open>Exceptions, the cluster and the clock\<close>

text \<open>The exceptions that the training script raises, catches or lets through. A call
  that raises is a value \<open>Inl e\<close>; a loop that never returns is the value \<open>None\<close>.\<close>

datatype exn = KeyboardInterrupt | StopTrainException | RuntimeError | KeyError | OSError
  | JSONDecodeError | AttributeError | TypeError | ValueError | ZeroDivisionError

text \<open>What one worker reads from \<^verbatim>\<open>parlai.utils.distributed\<close> and from its clock during a
  call. These functions are not part of the script; their results are parameters.
  \<^verbatim>\<open>all_gather_list\<close> returns every worker's version of the value passed in, and
  \<open>get_total_epochs\<close> is the reading of \<^verbatim>\<open>self.world.get_total_epochs()\<close>.
  \<open>parley_stops\<close> says whether the training step \<^verbatim>\<open>world.parley()\<close> of the iteration
  raises \<^verbatim>\<open>StopTrainException\<close>, and \<^verbatim>\<open>sync_object\<close> returns the primary worker's
  version of its argument. A call reads the clock once.\<close>

record env =
  is_distributed :: bool
  is_primary_worker :: bool
  num_workers :: int
  get_rank :: int
  now :: real
  get_total_epochs :: real
  parley_stops :: bool
  sync_object :: "real \<times> real \<times> real \<Rightarrow> real \<times> real \<times> real"

text \<open>Modelled from the spec: \<^verbatim>\<open>parlai.utils.misc.Timer\<close> is not in the repository's
  sources. Following section 4.1 of the specification, reset zeroes the timer, the
  reading is the time since the last reset plus a pre-seeded offset \<open>total\<close>, and the
  offset can be set on restore.\<close>

record timer =
  total :: real
  start :: real

definition Timer :: "real \<Rightarrow> timer" where
  "Timer t = \<lparr> total = 0, start = t \<rparr>"

definition timer_reset :: "timer \<Rightarrow> real \<Rightarrow> timer" where
  "timer_reset tm t = Timer t"

definition timer_time :: "timer \<Rightarrow> real \<Rightarrow> real" where
  "timer_time tm t = total tm + (t - start tm)"

section \<open>Reports, JSON values and files\<close>

text \<open>A report maps metric names to values; a value is a \<^verbatim>\<open>Metric\<close> object or a raw
  number (\<^verbatim>\<open>isinstance(v, Metric)\<close>). A Python dictionary keeps insertion order, so a
  report is an association list read with \<open>map_of\<close> and written with \<open>AList.update\<close>.\<close>

datatype metric = Metric real | Number real

fun "value" :: "metric \<Rightarrow> real" where
  "value (Metric x) = x"
| "value (Number x) = x"

type_synonym report = "(string \<times> metric) list"

datatype json = JNull | JBool bool | JInt int | JFloat real | JString string
  | JArray "json list" | JObject "(string \<times> json) list"

text \<open>\<^verbatim>\<open>obj.get(key, default)\<close> on a parsed JSON object.\<close>

definition obj_get :: "(string \<times> json) list \<Rightarrow> string \<Rightarrow> json \<Rightarrow> json" where
  "obj_get obj key d = (case map_of obj key of None \<Rightarrow> d | Some v \<Rightarrow> v)"

text \<open>What a file holds. \<^verbatim>\<open>json.dump\<close> followed by \<^verbatim>\<open>json.load\<close>, and \<^verbatim>\<open>str\<close> followed by
  \<^verbatim>\<open>float\<close>, give back the value written; a file is therefore stored as the value
  written to it. \<open>Partial\<close> is a file whose write was interrupted.\<close>

datatype content = Snapshot | Json json | FloatText real | Lines "string list" | Partial

text \<open>The file system and the interrupts. \<open>denied\<close> lists the paths at which
  \<^verbatim>\<open>open\<close> raises \<^verbatim>\<open>OSError\<close>. \<open>signals k\<close> says whether, and where, a
  \<^verbatim>\<open>KeyboardInterrupt\<close> arrives during the \<open>k\<close>-th save attempt of the run, and
  \<open>attempts\<close> counts the save attempts made so far.\<close>

datatype interrupt = During_agent_save | During_save_train_stats

record sys =
  files :: "string \<rightharpoonup> content"
  denied :: "string list"
  signals :: "nat \<Rightarrow> interrupt option"
  attempts :: nat

definition isfile :: "sys \<Rightarrow> string \<Rightarrow> bool" where
  "isfile s path = (files s path \<noteq> None)"

text \<open>\<^verbatim>\<open>f = open(path, 'w'); f.write(...); f.close()\<close>.\<close>

definition write_file :: "string \<Rightarrow> content \<Rightarrow> sys \<Rightarrow> exn + sys" where
  "write_file path c s =
     (if path \<in> set (denied s) then Inl OSError
      else Inr (s\<lparr>files := (files s)(path \<mapsto> c)\<rparr>))"

text \<open>\<^verbatim>\<open>f = open(path, 'a+'); f.write(line); f.close()\<close>. The log files are text files
  that only this function writes.\<close>

definition append_file :: "string \<Rightarrow> string \<Rightarrow> sys \<Rightarrow> exn + sys" where
  "append_file path line s =
     (if path \<in> set (denied s) then Inl OSError
      else Inr (s\<lparr>files := (files s)(path \<mapsto>
             (case files s path of
                Some (Lines ls) \<Rightarrow> Lines (ls @ [line])
              | _ \<Rightarrow> Lines [line]))\<rparr>))"

section \<open>Evaluation\<close>

text \<open>An evaluation world is a collaborator with state \<open>'w\<close>; the script calls the
  operations below on it. \<^verbatim>\<open>aggregate_named_reports\<close> and \<^verbatim>\<open>aggregate_unnamed_reports\<close>
  (\<^verbatim>\<open>parlai.core.metrics\<close>), \<^verbatim>\<open>nice_report\<close> (\<^verbatim>\<open>parlai.utils.misc\<close>) and the text of a
  report in an f-string are external too and are taken as parameters, and so is
  \<^verbatim>\<open>load_eval_worlds\<close>, which only builds the worlds of a datatype with
  \<^verbatim>\<open>create_task\<close>.\<close>

record 'w ops =
  reset :: "'w \<Rightarrow> 'w"
  epoch_done :: "'w \<Rightarrow> bool"
  parley :: "'w \<Rightarrow> 'w"
  report :: "'w \<Rightarrow> report"
  batchsize :: "'w \<Rightarrow> int"
  getID :: "'w \<Rightarrow> string"
  aggregate_named_reports :: "(string \<times> report) list \<Rightarrow> report"
  aggregate_unnamed_reports :: "report list \<Rightarrow> report"
  all_gather_list :: "report \<Rightarrow> report list"
  nice_report :: "report \<Rightarrow> report"
  str_report :: "report \<Rightarrow> string"
  load_eval_worlds :: "string \<Rightarrow> 'w list"

text \<open>\<^verbatim>\<open>cnt < max_cnt\<close> for an integer count and a bound that may be infinite.\<close>

fun below :: "int \<Rightarrow> bound \<Rightarrow> bool" where
  "below c (Fin b) = (real_of_int c < b)"
| "below c PosInf = True"

text \<open>The \<^verbatim>\<open>while\<close> loop of \<^verbatim>\<open>_run_single_eval\<close> (lines 248-253). The two prints
  under \<^verbatim>\<open>display_examples\<close> write to standard output only and are left out.\<close>

partial_function (option) eval_loop ::
  "'w ops \<Rightarrow> bound \<Rightarrow> 'w \<Rightarrow> int \<Rightarrow> ('w \<times> int) option" where
  "eval_loop ops max_cnt w cnt =
     (if \<not> epoch_done ops w \<and> below cnt max_cnt
      then eval_loop ops max_cnt (parley ops w) (cnt + batchsize ops (parley ops w))
      else Some (w, cnt))"

text \<open>\<^verbatim>\<open>_run_single_eval\<close> (lines 242-258): the report and the world after the call.\<close>

definition run_single_eval :: "'w ops \<Rightarrow> 'w \<Rightarrow> real \<Rightarrow> (report \<times> 'w) option" where
  "run_single_eval ops valid_world max_exs =
     (case eval_loop ops (positive_or_inf max_exs) (reset ops valid_world) 0 of
        None \<Rightarrow> None
      | Some (w, cnt) \<Rightarrow> Some (report ops w, reset ops w))"

text \<open>The value of \<^verbatim>\<open>cnt\<close> after \<open>n\<close> batch steps from world \<open>w\<close>: the batch size
  is read after each step.\<close>

fun examples_after :: "'w ops \<Rightarrow> 'w \<Rightarrow> nat \<Rightarrow> int" where
  "examples_after ops w 0 = 0"
| "examples_after ops w (Suc n) =
     examples_after ops w n + batchsize ops ((parley ops ^^ Suc n) w)"

text \<open>The loop condition of \<^verbatim>\<open>_run_single_eval\<close> fails after \<open>n\<close> batch steps: the
  world says its pass is done, or the count is not below \<^verbatim>\<open>max_cnt\<close>.\<close>

definition pass_ends :: "'w ops \<Rightarrow> bound \<Rightarrow> 'w \<Rightarrow> nat \<Rightarrow> bool" where
  "pass_ends ops max_cnt w n =
     (epoch_done ops ((parley ops ^^ n) w) \<or> \<not> below (examples_after ops w n) max_cnt)"

text \<open>The \<^verbatim>\<open>for\<close> loop of \<^verbatim>\<open>run_eval\<close> (lines 283-285): \<open>n\<close> is
  \<^verbatim>\<open>len(valid_worlds)\<close>.\<close>

fun eval_worlds :: "'w ops \<Rightarrow> real \<Rightarrow> nat \<Rightarrow> 'w list \<Rightarrow> (report list \<times> 'w list) option" where
  "eval_worlds ops max_exs n [] = Some ([], [])"
| "eval_worlds ops max_exs n (v_world # rest) =
     (case run_single_eval ops v_world (max_exs / real n) of
        None \<Rightarrow> None
      | Some (task_report, w) \<Rightarrow>
          (case eval_worlds ops max_exs n rest of
             None \<Rightarrow> None
           | Some (reports, ws) \<Rightarrow> Some (task_report # reports, w # ws)))"

text \<open>\<^verbatim>\<open>dict(zip(tasks, reports))\<close>: a later pair replaces the value of an equal key.\<close>

definition dict :: "('k \<times> 'v) list \<Rightarrow> ('k \<times> 'v) list" where
  "dict kvs = fold (\<lambda>(k, v) d. AList.update k v d) kvs []"

text \<open>\<^verbatim>\<open>run_eval\<close> (lines 261-302). The result is \<open>None\<close> when an evaluation loop never
  ends; otherwise \<open>Inl e\<close> when the call raises \<open>e\<close>, and else the value returned
  (\<^verbatim>\<open>None\<close> without worlds), the worlds and the file system after the call.\<close>

definition run_eval ::
  "'w ops \<Rightarrow> 'w list option \<Rightarrow> opts \<Rightarrow> string \<Rightarrow> real \<Rightarrow> bool \<Rightarrow> sys
     \<Rightarrow> (exn + (report option \<times> 'w list option \<times> sys)) option" where
  "run_eval ops valid_worlds opt datatype max_exs write_log s =
     (case valid_worlds of
        None \<Rightarrow> Some (Inr (None, None, s))
      | Some worlds \<Rightarrow>
          (case eval_worlds ops max_exs (length worlds) worlds of
             None \<Rightarrow> None
           | Some (reports, worlds') \<Rightarrow>
               (let tasks = map (getID ops) worlds;
                    named_reports = dict (zip tasks reports);
                    report = nice_report ops (aggregate_named_reports ops named_reports);
                    metrics = datatype @ '':'' @ str_report ops report
                in if write_log \<and> truthy (opt_model_file opt)
                   then (case append_file (model_path opt @ ''.'' @ datatype)
                                 (metrics @ [CHR 0x0A]) s of
                           Inl e \<Rightarrow> Some (Inl e)
                         | Inr s' \<Rightarrow> Some (Inr (Some report, Some worlds', s')))
                   else Some (Inr (Some report, Some worlds', s)))))"

section \<open>Construction of the training loop\<close>

text \<open>Lines 329-336: which statistics file the constructor reads, and the model it
  starts from.\<close>

definition from_checkpoint :: "opts \<Rightarrow> sys \<Rightarrow> bool" where
  "from_checkpoint opt s =
     (opt_load_from_checkpoint opt \<and> truthy (opt_model_file opt)
      \<and> isfile s (model_path opt @ ''.checkpoint''))"

definition trainstats_suffix :: "opts \<Rightarrow> sys \<Rightarrow> string" where
  "trainstats_suffix opt s =
     (if from_checkpoint opt s then ''.checkpoint.trainstats'' else ''.trainstats'')"

text \<open>Lines 384-390: the smart defaults for \<^verbatim>\<open>--validation-metric-mode\<close>.\<close>

definition smart_defaults :: "opts \<Rightarrow> opts" where
  "smart_defaults opt =
     (let opt1 =
        (if opt_validation_metric opt \<in> {''loss'', ''ppl'', ''mean_rank''}
         then opt\<lparr>opt_validation_metric_mode := Some ''min''\<rparr>
         else if opt_validation_metric opt
                   \<in> {''accuracy'', ''hits@1'', ''hits@5'', ''f1'', ''bleu''}
         then opt\<lparr>opt_validation_metric_mode := Some ''max''\<rparr>
         else opt)
      in if opt_validation_metric_mode opt1 = None
         then opt1\<lparr>opt_validation_metric_mode := Some ''max''\<rparr>
         else opt1)"

text \<open>Lines 396-400: the best validation value of an earlier run.\<close>

definition load_best_valid :: "opts \<Rightarrow> sys \<Rightarrow> exn + real option" where
  "load_best_valid opt s =
     (if truthy (opt_model_file opt) \<and> isfile s (model_path opt @ ''.best_valid'')
      then (case files s (model_path opt @ ''.best_valid'') of
              Some (FloatText x) \<Rightarrow> Inr (Some x)
            | _ \<Rightarrow> Inl ValueError)
      else Inr None)"

text \<open>The numbers of a statistics file. Python stores whatever \<^verbatim>\<open>json.load\<close> returns;
  the attributes are typed here, and a field of another JSON type is a
  \<^verbatim>\<open>TypeError\<close>.\<close>

fun json_float :: "json \<Rightarrow> real option" where
  "json_float (JFloat x) = Some x"
| "json_float (JInt i) = Some (real_of_int i)"
| "json_float _ = None"

fun json_int :: "json \<Rightarrow> int option" where
  "json_int (JInt i) = Some i"
| "json_int _ = None"

fun json_array :: "json \<Rightarrow> json list option" where
  "json_array (JArray xs) = Some xs"
| "json_array _ = None"

text \<open>The path that \<^verbatim>\<open>save_model\<close> and \<^verbatim>\<open>_save_train_stats\<close> build from the model file
  and the suffix (\<^verbatim>\<open>if suffix: fn += suffix\<close>).\<close>

definition save_path :: "opts \<Rightarrow> string option \<Rightarrow> string" where
  "save_path opt suffix =
     model_path opt @ (case suffix of None \<Rightarrow> [] | Some sfx \<Rightarrow> sfx)"

text \<open>The attributes of a \<^verbatim>\<open>TrainLoop\<close> that the loop reads and writes. The agent, the
  training world and the tensorboard logger are collaborators and are not part of the
  state; \<open>self_opt\<close> is \<^verbatim>\<open>self.opt\<close>, \<open>total_epochs\<close> is \<^verbatim>\<open>self._total_epochs\<close>, which has no value before the first
  iteration of \<^verbatim>\<open>train\<close>, and \<open>preempted_epochs\<close> is \<^verbatim>\<open>self._preempted_epochs\<close>.\<close>

record 'w train_loop =
  self_opt :: opts
  train_time :: timer
  validate_time :: timer
  log_time :: timer
  save_time :: timer
  parleys :: int
  max_num_epochs :: bound
  max_train_time :: bound
  log_every_n_secs :: bound
  val_every_n_secs :: bound
  save_every_n_secs :: bound
  val_every_n_epochs :: bound
  last_valid_epoch :: real
  valid_optim :: int
  valid_reports :: "json list"
  best_valid :: "real option"
  impatience :: int
  saved :: bool
  valid_worlds :: "'w list option"
  preempted_epochs :: real
  total_epochs :: "real option"

text \<open>Lines 406-418: the statistics of a preempted run, read into the new object.\<close>

definition load_train_stats :: "'w train_loop \<Rightarrow> string \<Rightarrow> sys \<Rightarrow> exn + 'w train_loop" where
  "load_train_stats self suffix s =
     (let self0 = self\<lparr>preempted_epochs := 0\<rparr>
      in if truthy (opt_model_file (self_opt self)) \<and> isfile s (model_path (self_opt self) @ suffix)
         then (case files s (model_path (self_opt self) @ suffix) of
                 Some (Json (JObject obj)) \<Rightarrow>
                   (case (json_float (obj_get obj ''total_epochs'' (JInt 0)),
                          json_float (obj_get obj ''train_time'' (JInt 0)),
                          json_int (obj_get obj ''impatience'' (JInt 0)),
                          json_array (obj_get obj ''valid_reports'' (JArray []))) of
                      (Some e, Some t, Some i, Some vr) \<Rightarrow>
                        Inr (self0\<lparr>preempted_epochs := e,
                                 train_time := (train_time self0)\<lparr>total := t\<rparr>,
                                 impatience := i,
                                 valid_reports := vr\<rparr>)
                    | _ \<Rightarrow> Inl TypeError)
               | Some (Json _) \<Rightarrow> Inl AttributeError
               | _ \<Rightarrow> Inl JSONDecodeError)
         else Inr self0)"

text \<open>\<^verbatim>\<open>TrainLoop.__init__\<close> (lines 319-421). \<^verbatim>\<open>build_dict\<close>, \<^verbatim>\<open>create_agent\<close> and
  \<^verbatim>\<open>create_task\<close> build collaborators and are left out, as is the pytorch teacher
  branch of the dictionary path.\<close>

definition TrainLoop_init :: "opts \<Rightarrow> env \<Rightarrow> sys \<Rightarrow> exn + 'w train_loop" where
  "TrainLoop_init opt0 e s =
     (let suffix = trainstats_suffix opt0 s;
          opt1 = (if from_checkpoint opt0 s
                  then opt0\<lparr>opt_init_model := Some (model_path opt0 @ ''.checkpoint'')\<rparr>
                  else opt0)
      in if \<not> (truthy (opt_dict_file opt1) \<or> truthy (opt_model_file opt1))
         then Inl RuntimeError
         else
           (let opt2 = (if opt_dict_file opt1 = None \<and> truthy (opt_model_file opt1)
                        then opt1\<lparr>opt_dict_file := Some (model_path opt1 @ ''.dict'')\<rparr>
                        else opt1);
                opt3 = smart_defaults opt2
            in case load_best_valid opt3 s of
                 Inl x \<Rightarrow> Inl x
               | Inr bv \<Rightarrow>
                   load_train_stats
                     \<lparr> self_opt = opt3,
                       train_time = Timer (now e),
                       validate_time = Timer (now e),
                       log_time = Timer (now e),
                       save_time = Timer (now e),
                       parleys = 0,
                       max_num_epochs = positive_or_inf (opt_num_epochs opt2),
                       max_train_time = positive_or_inf (opt_max_train_time opt2),
                       log_every_n_secs = positive_or_inf (opt_log_every_n_secs opt2),
                       val_every_n_secs = positive_or_inf (opt_validation_every_n_secs opt2),
                       save_every_n_secs = positive_or_inf (opt_save_every_n_secs opt2),
                       val_every_n_epochs = positive_or_inf (opt_validation_every_n_epochs opt2),
                       last_valid_epoch = 0,
                       valid_optim = (if opt_validation_metric_mode opt3 = Some ''max''
                                      then 1 else - 1),
                       valid_reports = [],
                       best_valid = bv,
                       impatience = 0,
                       saved = False,
                       valid_worlds = None,
                       preempted_epochs = 0,
                       total_epochs = None \<rparr>
                     suffix s))"

section \<open>Saving\<close>

text \<open>The object that \<^verbatim>\<open>_save_train_stats\<close> dumps (lines 453-461).\<close>

definition train_stats :: "'w train_loop \<Rightarrow> env \<Rightarrow> json" where
  "train_stats self e = JObject
     [(''train_time'', JFloat (timer_time (train_time self) (now e))),
      (''total_epochs'',
         JFloat (preempted_epochs self + real_of_int (num_workers e) * get_total_epochs e)),
      (''impatience'', JInt (impatience self)),
      (''valid_reports'', JArray (valid_reports self))]"

text \<open>\<^verbatim>\<open>TrainLoop._save_train_stats\<close> (lines 446-463).\<close>

definition save_train_stats :: "'w train_loop \<Rightarrow> string option \<Rightarrow> env \<Rightarrow> sys \<Rightarrow> exn + sys" where
  "save_train_stats self suffix e s =
     write_file (save_path (self_opt self) suffix @ ''.trainstats'') (Json (train_stats self e)) s"

text \<open>Modelled from the spec: \<^verbatim>\<open>agent.save(path)\<close> belongs to the agent, which is not in
  the repository's sources. Following section 6 of the specification, it writes the
  model snapshot at the path.\<close>

definition agent_save :: "string \<Rightarrow> sys \<Rightarrow> exn + sys" where
  "agent_save fn s = write_file fn Snapshot s"

text \<open>One pass through the \<^verbatim>\<open>try\<close> block of \<^verbatim>\<open>save_model\<close> (lines 440-442): the
  exception it ends with, if any, and the file system after it. An interrupt leaves the
  file being written incomplete.\<close>

definition save_attempt ::
  "'w train_loop \<Rightarrow> string option \<Rightarrow> env \<Rightarrow> sys \<Rightarrow> exn option \<times> sys" where
  "save_attempt self suffix e s =
     (let fn = save_path (self_opt self) suffix;
          s1 = s\<lparr>attempts := Suc (attempts s)\<rparr>
      in case signals s (attempts s) of
           Some During_agent_save \<Rightarrow>
             (Some KeyboardInterrupt, s1\<lparr>files := (files s1)(fn \<mapsto> Partial)\<rparr>)
         | Some During_save_train_stats \<Rightarrow>
             (case agent_save fn s1 of
                Inl x \<Rightarrow> (Some x, s1)
              | Inr s2 \<Rightarrow>
                  (Some KeyboardInterrupt,
                   s2\<lparr>files := (files s2)(fn @ ''.trainstats'' \<mapsto> Partial)\<rparr>))
         | None \<Rightarrow>
             (case agent_save fn s1 of
                Inl x \<Rightarrow> (Some x, s1)
              | Inr s2 \<Rightarrow>
                  (case save_train_stats self suffix e s2 of
                     Inl x \<Rightarrow> (Some x, s2)
                   | Inr s3 \<Rightarrow> (None, s3))))"

text \<open>The \<^verbatim>\<open>while True\<close> loop of \<^verbatim>\<open>save_model\<close> (lines 437-444).\<close>

partial_function (option) save_loop ::
  "'w train_loop \<Rightarrow> string option \<Rightarrow> env \<Rightarrow> sys \<Rightarrow> (exn + sys) option" where
  "save_loop self suffix e s =
     (case save_attempt self suffix e s of
        (None, s') \<Rightarrow> Some (Inr s')
      | (Some x, s') \<Rightarrow>
          (if x = KeyboardInterrupt then save_loop self suffix e s' else Some (Inl x)))"

text \<open>\<^verbatim>\<open>TrainLoop.save_model\<close> (lines 423-444).\<close>

definition save_model ::
  "'w train_loop \<Rightarrow> string option \<Rightarrow> env \<Rightarrow> sys \<Rightarrow> (exn + sys) option" where
  "save_model self suffix e s =
     (if \<not> is_primary_worker e then Some (Inr s)
      else if \<not> truthy (opt_model_file (self_opt self)) then Some (Inr s)
      else save_loop self suffix e s)"

text \<open>\<^verbatim>\<open>_save_best_valid\<close> (lines 305-311).\<close>

definition save_best_valid :: "string \<Rightarrow> real \<Rightarrow> sys \<Rightarrow> exn + sys" where
  "save_best_valid model_file bv s = write_file (model_file @ ''.best_valid'') (FloatText bv) s"

section \<open>Validation\<close>

text \<open>Lines 482-484 of \<^verbatim>\<open>validate\<close>: the value of the local variable \<^verbatim>\<open>max_exs\<close>.
  Python's \<^verbatim>\<open>//\<close> and \<^verbatim>\<open>%\<close> on integers round towards minus infinity, as \<open>div\<close> and
  \<open>mod\<close> do.\<close>

definition validate_max_exs :: "opts \<Rightarrow> env \<Rightarrow> int" where
  "validate_max_exs opt e =
     (let max_exs = opt_validation_max_exs opt div num_workers e
      in max_exs + (if opt_validation_max_exs opt mod num_workers e < get_rank e then 1 else 0))"

text \<open>\<^verbatim>\<open>TrainLoop._sync_metrics\<close> (lines 561-572).\<close>

definition sync_metrics :: "'w ops \<Rightarrow> env \<Rightarrow> report \<Rightarrow> report" where
  "sync_metrics ops e metrics =
     (if \<not> is_distributed e then metrics
      else aggregate_unnamed_reports ops (all_gather_list ops metrics))"

text \<open>\<^verbatim>\<open>TrainLoop._values_only\<close> (line 466), as the JSON object that is stored.\<close>

definition values_only :: "report \<Rightarrow> json" where
  "values_only r = JObject (map (\<lambda>(k, v). (k, JFloat (value v))) r)"

text \<open>Lines 477-487 of \<^verbatim>\<open>validate\<close>: the worlds are loaded on the first call, the
  local \<^verbatim>\<open>max_exs\<close> is computed, and \<^verbatim>\<open>run_eval\<close> is called with
  \<^verbatim>\<open>opt['validation_max_exs']\<close>.\<close>

definition validate_eval ::
  "'w ops \<Rightarrow> 'w train_loop \<Rightarrow> env \<Rightarrow> sys \<Rightarrow> (exn + (report \<times> 'w train_loop \<times> sys)) option" where
  "validate_eval ops self e s =
     (let self1 = (case valid_worlds self of
                     None \<Rightarrow> self\<lparr>valid_worlds := Some (load_eval_worlds ops ''valid'')\<rparr>
                   | Some ws \<Rightarrow> self)
      in if num_workers e = 0 then Some (Inl ZeroDivisionError)
         else
           (let max_exs = validate_max_exs (self_opt self1) e
            in case run_eval ops (valid_worlds self1) (self_opt self1) ''valid''
                      (real_of_int (opt_validation_max_exs (self_opt self1))) False s of
                 None \<Rightarrow> None
               | Some (Inl x) \<Rightarrow> Some (Inl x)
               | Some (Inr (None, ws, s1)) \<Rightarrow> Some (Inl AttributeError)
               | Some (Inr (Some r, ws, s1)) \<Rightarrow>
                   Some (Inr (sync_metrics ops e r, self1\<lparr>valid_worlds := ws\<rparr>, s1))))"

text \<open>Lines 488-501: the report is appended to the history with the training time, and
  a checkpoint is saved when \<^verbatim>\<open>save_after_valid\<close> asks for it. The tensorboard log and
  the optional \<^verbatim>\<open>receive_metrics\<close> hook of the agent (lines 492-493, 504-505) do not
  touch the loop's state and are left out.\<close>

definition validate_record ::
  "'w train_loop \<Rightarrow> report \<Rightarrow> env \<Rightarrow> sys \<Rightarrow> (exn + ('w train_loop \<times> sys)) option" where
  "validate_record self valid_report e s =
     (let v = AList.update ''train_time'' (Number (timer_time (train_time self) (now e)))
                valid_report;
          self1 = self\<lparr>valid_reports := valid_reports self @ [values_only v]\<rparr>
      in if truthy (opt_model_file (self_opt self1)) \<and> opt_save_after_valid (self_opt self1)
            \<and> is_primary_worker e
         then (case save_model self1 (Some ''.checkpoint'') e s of
                 None \<Rightarrow> None
               | Some (Inl x) \<Rightarrow> Some (Inl x)
               | Some (Inr s1) \<Rightarrow> Some (Inr (self1, s1)))
         else Some (Inr (self1, s)))"

text \<open>The test of line 514-517: is the new value the best so far?\<close>

definition is_best :: "'w train_loop \<Rightarrow> real \<Rightarrow> bool" where
  "is_best self new_valid =
     (case best_valid self of
        None \<Rightarrow> True
      | Some b \<Rightarrow> real_of_int (valid_optim self) * new_valid > real_of_int (valid_optim self) * b)"

text \<open>Lines 552-559: the patience test that ends \<^verbatim>\<open>validate\<close>.\<close>

definition out_of_patience :: "'w train_loop \<Rightarrow> bool" where
  "out_of_patience self =
     (opt_validation_patience (self_opt self) > 0
      \<and> impatience self \<ge> opt_validation_patience (self_opt self))"

text \<open>Lines 507-559: the new value of the validation metric is compared with the best
  one. The result is the boolean that \<^verbatim>\<open>validate\<close> returns, with the object and the
  file system after the call.\<close>

definition validate_compare ::
  "'w train_loop \<Rightarrow> report \<Rightarrow> env \<Rightarrow> sys \<Rightarrow> (exn + (bool \<times> 'w train_loop \<times> sys)) option" where
  "validate_compare self valid_report e s =
     (case map_of valid_report (opt_validation_metric (self_opt self)) of
        None \<Rightarrow> Some (Inl KeyError)
      | Some m \<Rightarrow>
          (let new_valid = value m
           in if is_best self new_valid
              then
                (let self1 = self\<lparr>best_valid := Some new_valid, impatience := 0\<rparr>;
                     solved = (opt_validation_metric (self_opt self1) = ''accuracy''
                               \<and> new_valid \<ge> opt_validation_cutoff (self_opt self1));
                     finish = (\<lambda>self2 s2.
                        if solved then Some (Inr (True, self2, s2))
                        else (let self3 = self2\<lparr>validate_time :=
                                            timer_reset (validate_time self2) (now e)\<rparr>
                              in Some (Inr (out_of_patience self3, self3, s2))))
                 in if truthy (opt_model_file (self_opt self1)) \<and> is_primary_worker e
                    then (case save_model self1 None e s of
                            None \<Rightarrow> None
                          | Some (Inl x) \<Rightarrow> Some (Inl x)
                          | Some (Inr s1) \<Rightarrow>
                              (case save_best_valid (model_path (self_opt self1)) new_valid s1 of
                                 Inl x \<Rightarrow> Some (Inl x)
                               | Inr s2 \<Rightarrow> finish (self1\<lparr>saved := True\<rparr>) s2))
                    else finish self1 s)
              else
                (let self1 = self\<lparr>impatience := impatience self + 1\<rparr>;
                     self2 = self1\<lparr>validate_time := timer_reset (validate_time self1) (now e)\<rparr>
                 in Some (Inr (out_of_patience self2, self2, s)))))"

text \<open>\<^verbatim>\<open>TrainLoop.validate\<close> (lines 468-559).\<close>

definition validate ::
  "'w ops \<Rightarrow> 'w train_loop \<Rightarrow> env \<Rightarrow> sys \<Rightarrow> (exn + (bool \<times> 'w train_loop \<times> sys)) option" where
  "validate ops self e s =
     (case validate_eval ops self e s of
        None \<Rightarrow> None
      | Some (Inl x) \<Rightarrow> Some (Inl x)
      | Some (Inr (valid_report, self1, s1)) \<Rightarrow>
          (case validate_record self1 valid_report e s1 of
             None \<Rightarrow> None
           | Some (Inl x) \<Rightarrow> Some (Inl x)
           | Some (Inr (self2, s2)) \<Rightarrow> validate_compare self2 valid_report e s2))"

text \<open>Lines 508-511: the value that a call of \<^verbatim>\<open>validate\<close> compares with the best
  one, if the call gets that far.\<close>

definition new_valid :: "'w ops \<Rightarrow> 'w train_loop \<Rightarrow> env \<Rightarrow> sys \<Rightarrow> real option" where
  "new_valid ops self e s =
     (case validate_eval ops self e s of
        Some (Inr (valid_report, self1, s1)) \<Rightarrow>
          map_option value (map_of valid_report (opt_validation_metric (self_opt self1)))
      | _ \<Rightarrow> None)"

text \<open>The validations of a run, one after the other on the same object: the \<open>i\<close>-th
  call is made in the environment \<open>es ! i\<close>. The run ends with the first call that
  raises or does not return; otherwise the result holds the values compared, in order,
  and the object and the file system after the last call.\<close>

fun validations ::
  "'w ops \<Rightarrow> env list \<Rightarrow> 'w train_loop \<Rightarrow> sys
     \<Rightarrow> (exn + (real list \<times> 'w train_loop \<times> sys)) option" where
  "validations ops [] self s = Some (Inr ([], self, s))"
| "validations ops (e # es) self s =
     (case validate ops self e s of
        None \<Rightarrow> None
      | Some (Inl x) \<Rightarrow> Some (Inl x)
      | Some (Inr (stop, self1, s1)) \<Rightarrow>
          (case validations ops es self1 s1 of
             None \<Rightarrow> None
           | Some (Inl x) \<Rightarrow> Some (Inl x)
           | Some (Inr (vs, self2, s2)) \<Rightarrow>
               Some (Inr ((case new_valid ops self e s of None \<Rightarrow> vs | Some v \<Rightarrow> v # vs),
                          self2, s2))))"

subsection \<open>The specification's reading of improvement\<close>

text \<open>Following the specification's words: a value strictly improves on the best value
  under the configured direction (1 for \<^verbatim>\<open>max\<close>, -1 for \<^verbatim>\<open>min\<close>) when it is greater,
  respectively smaller; the first validation always improves.\<close>

definition spec_strictly_improves :: "int \<Rightarrow> real option \<Rightarrow> real \<Rightarrow> bool" where
  "spec_strictly_improves direction best v =
     (case best of
        None \<Rightarrow> True
      | Some b \<Rightarrow> if direction = 1 then v > b else v < b)"

text \<open>Following the specification's words: which validations of a sequence of values
  improve, the best value being updated if and only if the new value strictly improves.\<close>

fun spec_improvements :: "int \<Rightarrow> real option \<Rightarrow> real list \<Rightarrow> bool list" where
  "spec_improvements direction best [] = []"
| "spec_improvements direction best (v # vs) =
     spec_strictly_improves direction best v
       # spec_improvements direction
           (if spec_strictly_improves direction best v then Some v else best) vs"

text \<open>Following the specification's words: the count of consecutive non-improving
  validations since the last improvement (or since the start).\<close>

definition spec_non_improving_since_last :: "bool list \<Rightarrow> nat" where
  "spec_non_improving_since_last flags = length (takeWhile Not (rev flags))"

text \<open>Two objects agree on what the constructor fixes for the run: the options, the
  direction and the six thresholds.\<close>

definition same_config :: "'w train_loop \<Rightarrow> 'w train_loop \<Rightarrow> bool" where
  "same_config a b =
     (self_opt a = self_opt b \<and> valid_optim a = valid_optim b
      \<and> max_num_epochs a = max_num_epochs b \<and> max_train_time a = max_train_time b
      \<and> log_every_n_secs a = log_every_n_secs b \<and> val_every_n_secs a = val_every_n_secs b
      \<and> save_every_n_secs a = save_every_n_secs b
      \<and> val_every_n_epochs a = val_every_n_epochs b)"

section \<open>One iteration of the training loop\<close>

text \<open>What an iteration does, in order: the calls of \<^verbatim>\<open>self.log()\<close>,
  \<^verbatim>\<open>self.validate()\<close> and \<^verbatim>\<open>self.save_model('.checkpoint')\<close>, and the two messages
  printed when a budget is used up. An iteration ends with \<^verbatim>\<open>break\<close> or goes on to the
  next one.\<close>

datatype action = Log | Print_num_epochs_completed | Print_max_train_time_elapsed
  | Validate | Save_checkpoint

datatype flow = Continue | Break

text \<open>\<^verbatim>\<open>TrainLoop.log\<close> (lines 599-629): the entry itself goes to standard output; the
  object keeps the reset of \<^verbatim>\<open>log_time\<close>.\<close>

definition log_entry :: "'w train_loop \<Rightarrow> env \<Rightarrow> 'w train_loop" where
  "log_entry self e = self\<lparr>log_time := timer_reset (log_time self) (now e)\<rparr>"

text \<open>Lines 701-712 of \<^verbatim>\<open>train\<close>: the periodic checkpoint. \<open>acts\<close> are the actions
  of the iteration so far.\<close>

definition train_checkpoint ::
  "'w train_loop \<Rightarrow> env \<Rightarrow> sys \<Rightarrow> action list
     \<Rightarrow> (exn + (flow \<times> action list \<times> 'w train_loop \<times> sys)) option" where
  "train_checkpoint self e s acts =
     (if exceeds (timer_time (save_time self) (now e)) (save_every_n_secs self)
         \<and> truthy (opt_model_file (self_opt self)) \<and> is_primary_worker e
      then (case save_model self (Some ''.checkpoint'') e s of
              None \<Rightarrow> None
            | Some (Inl x) \<Rightarrow> Some (Inl x)
            | Some (Inr s1) \<Rightarrow>
                Some (Inr (Continue, acts @ [Save_checkpoint],
                           self\<lparr>save_time := timer_reset (save_time self) (now e)\<rparr>, s1)))
      else Some (Inr (Continue, acts, self, s)))"

text \<open>Lines 684-700 of \<^verbatim>\<open>train\<close>: the periodic validation, followed by the checkpoint
  when the loop goes on. \<open>epochs\<close> is the value of \<^verbatim>\<open>self._total_epochs\<close> and
  \<open>validate_t\<close> the synchronised reading of \<^verbatim>\<open>validate_time\<close>.\<close>

definition train_validate ::
  "'w ops \<Rightarrow> 'w train_loop \<Rightarrow> env \<Rightarrow> sys \<Rightarrow> real \<Rightarrow> real \<Rightarrow> action list
     \<Rightarrow> (exn + (flow \<times> action list \<times> 'w train_loop \<times> sys)) option" where
  "train_validate ops self e s epochs validate_t acts =
     (if exceeds validate_t (val_every_n_secs self)
         \<or> reaches (epochs - last_valid_epoch self) (val_every_n_epochs self)
      then (case validate ops self e s of
              None \<Rightarrow> None
            | Some (Inl x) \<Rightarrow>
                (if x = StopTrainException
                 then (if is_distributed e then Some (Inl RuntimeError)
                       else Some (Inr (Break, acts @ [Validate], self, s)))
                 else Some (Inl x))
            | Some (Inr (stop_training, self1, s1)) \<Rightarrow>
                (let self2 = self1\<lparr>last_valid_epoch := epochs\<rparr>
                 in if stop_training then Some (Inr (Break, acts @ [Validate], self2, s1))
                    else train_checkpoint self2 e s1 (acts @ [Validate])))
      else train_checkpoint self e s acts)"

text \<open>One pass through the body of the \<^verbatim>\<open>while True\<close> loop of \<^verbatim>\<open>TrainLoop.train\<close>
  (lines 641-712). \<^verbatim>\<open>self._total_exs\<close> is only displayed and is left out.\<close>

definition train_iteration ::
  "'w ops \<Rightarrow> 'w train_loop \<Rightarrow> env \<Rightarrow> sys
     \<Rightarrow> (exn + (flow \<times> action list \<times> 'w train_loop \<times> sys)) option" where
  "train_iteration ops self e s =
     (if parley_stops e
      then (if is_distributed e then Some (Inl RuntimeError)
            else Some (Inr (Break, [], self, s)))
      else
        (let epochs = preempted_epochs self + real_of_int (num_workers e) * get_total_epochs e;
             self1 = self\<lparr>parleys := parleys self + 1, total_epochs := Some epochs\<rparr>;
             (train_t, log_t, validate_t) =
                sync_object e (timer_time (train_time self1) (now e),
                               timer_time (log_time self1) (now e),
                               timer_time (validate_time self1) (now e))
         in if reaches epochs (max_num_epochs self1)
            then Some (Inr (Break, [Log, Print_num_epochs_completed], log_entry self1 e, s))
            else if exceeds train_t (max_train_time self1)
            then Some (Inr (Break, [Print_max_train_time_elapsed], self1, s))
            else if exceeds log_t (log_every_n_secs self1)
            then train_validate ops (log_entry self1 e) e s epochs validate_t [Log]
            else train_validate ops self1 e s epochs validate_t []))"

text \<open>The \<^verbatim>\<open>while True\<close> loop of \<^verbatim>\<open>TrainLoop.train\<close> (lines 640-712) for as many
  iterations as there are environments: the flow, the actions in order, and the object
  and the file system after the last iteration made.\<close>

fun train_run ::
  "'w ops \<Rightarrow> env list \<Rightarrow> 'w train_loop \<Rightarrow> sys
     \<Rightarrow> (exn + (flow \<times> action list \<times> 'w train_loop \<times> sys)) option" where
  "train_run ops [] self s = Some (Inr (Continue, [], self, s))"
| "train_run ops (e # es) self s =
     (case train_iteration ops self e s of
        None \<Rightarrow> None
      | Some (Inl x) \<Rightarrow> Some (Inl x)
      | Some (Inr (Break, acts, self1, s1)) \<Rightarrow> Some (Inr (Break, acts, self1, s1))
      | Some (Inr (Continue, acts, self1, s1)) \<Rightarrow>
          (case train_run ops es self1 s1 of
             None \<Rightarrow> None
           | Some (Inl x) \<Rightarrow> Some (Inl x)
           | Some (Inr (fl, acts2, self2, s2)) \<Rightarrow> Some (Inr (fl, acts @ acts2, self2, s2))))"

text \<open>Every action in the list needs a finite threshold of the loop: the message of
  a used-up budget its budget, a log entry the log interval unless it belongs to the
  epoch stop, a validation one of the two validation intervals, and a checkpoint the
  save interval.\<close>

definition acts_ok :: "'w train_loop \<Rightarrow> action list \<Rightarrow> bool" where
  "acts_ok self acts =
     ((Print_num_epochs_completed \<in> set acts \<longrightarrow> max_num_epochs self \<noteq> PosInf)
      \<and> (Print_max_train_time_elapsed \<in> set acts \<longrightarrow> max_train_time self \<noteq> PosInf)
      \<and> (Log \<in> set acts \<longrightarrow>
            Print_num_epochs_completed \<in> set acts \<or> log_every_n_secs self \<noteq> PosInf)
      \<and> (Validate \<in> set acts \<longrightarrow>
            val_every_n_secs self \<noteq> PosInf \<or> val_every_n_epochs self \<noteq> PosInf)
      \<and> (Save_checkpoint \<in> set acts \<longrightarrow> save_every_n_secs self \<noteq> PosInf))"

section \<open>A world that counts its examples\<close>

text \<open>A data source of \<open>n\<close> examples with batch size 1, used to run the definitions:
  the state is the number of examples seen in the current pass, and the report gives
  that number under \<^verbatim>\<open>exs\<close> and under \<^verbatim>\<open>accuracy\<close>. There is one task and one version
  of every report.\<close>

definition counting :: "int \<Rightarrow> int ops" where
  "counting n =
     \<lparr> reset = (\<lambda>w. 0),
       epoch_done = (\<lambda>w. w \<ge> n),
       parley = (\<lambda>w. w + 1),
       report = (\<lambda>w. [(''exs'', Number (real_of_int w)),
                      (''accuracy'', Metric (real_of_int w))]),
       batchsize = (\<lambda>w. 1),
       getID = (\<lambda>w. ''task''),
       aggregate_named_reports = (\<lambda>named. concat (map snd named)),
       aggregate_unnamed_reports = concat,
       all_gather_list = (\<lambda>r. [r]),
       nice_report = (\<lambda>r. r),
       str_report = (\<lambda>r. ''report''),
       load_eval_worlds = (\<lambda>datatype. [0]) \<rparr>"

text \<open>A file system without files, refusals or interrupts, and the environment of a
  single worker at time 0.\<close>

definition empty_sys :: sys where
  "empty_sys = \<lparr> files = Map.empty, denied = [], signals = (\<lambda>k. None), attempts = 0 \<rparr>"

definition single_worker :: env where
  "single_worker =
     \<lparr> is_distributed = False, is_primary_worker = True, num_workers = 1, get_rank = 0,
       now = 0, get_total_epochs = 0, parley_stops = False, sync_object = (\<lambda>x. x) \<rparr>"

text \<open>Worker \<open>r\<close> of a distributed run with \<open>n\<close> workers.\<close>

definition worker :: "int \<Rightarrow> int \<Rightarrow> env" where
  "worker n r = single_worker\<lparr>is_distributed := True, is_primary_worker := (r = 0),
                              num_workers := n, get_rank := r\<rparr>"

section \<open>Auxiliary facts\<close>

subsection \<open>What a validation leaves unchanged\<close>

lemma same_config_refl: "same_config a a"
  by (simp add: same_config_def)

lemma same_config_trans: "same_config a b \<Longrightarrow> same_config b c \<Longrightarrow> same_config a c"
  by (simp add: same_config_def)

lemma validate_eval_config:
  "validate_eval ops self e s = Some (Inr (r, self', s')) \<Longrightarrow> same_config self self'
     \<and> impatience self' = impatience self \<and> best_valid self' = best_valid self"
  by (auto simp: validate_eval_def Let_def same_config_def
      split: option.splits if_splits sum.splits prod.splits)

lemma validate_record_config:
  "validate_record self r e s = Some (Inr (self', s')) \<Longrightarrow> same_config self self'
     \<and> impatience self' = impatience self \<and> best_valid self' = best_valid self"
  by (auto simp: validate_record_def Let_def same_config_def
      split: option.splits if_splits sum.splits prod.splits)

lemma validate_compare_config:
  "validate_compare self r e s = Some (Inr (b, self', s')) \<Longrightarrow> same_config self self'"
  by (auto simp: validate_compare_def Let_def same_config_def
      split: option.splits if_splits sum.splits prod.splits)

lemma validate_config:
  "validate ops self e s = Some (Inr (b, self', s')) \<Longrightarrow> same_config self self'"
  by (auto simp: validate_def split: option.splits sum.splits prod.splits
      dest!: validate_eval_config validate_record_config validate_compare_config
      intro: same_config_trans)

subsection \<open>Impatience\<close>

lemma validate_compare_step:
  assumes "validate_compare self r e s = Some (Inr (b, self', s'))"
  shows "\<exists>m. map_of r (opt_validation_metric (self_opt self)) = Some m
       \<and> impatience self' = (if is_best self (value m) then 0 else impatience self + 1)
       \<and> best_valid self' = (if is_best self (value m) then Some (value m) else best_valid self)"
proof (cases "map_of r (opt_validation_metric (self_opt self))")
  case None
  with assms show ?thesis by (simp add: validate_compare_def)
next
  case (Some m)
  show ?thesis
  proof (cases "is_best self (value m)")
    case True
    with assms Some show ?thesis
      by (simp add: validate_compare_def Let_def
          split: option.splits if_splits sum.splits) auto
  next
    case False
    with assms Some show ?thesis
      by (simp add: validate_compare_def Let_def) auto
  qed
qed

lemma validate_step:
  assumes "validate ops self e s = Some (Inr (stop, self', s'))"
  shows "\<exists>v. new_valid ops self e s = Some v
       \<and> impatience self' = (if is_best self v then 0 else impatience self + 1)
       \<and> best_valid self' = (if is_best self v then Some v else best_valid self)"
proof -
  from assms obtain r self1 s1 self2 s2 where
    ev: "validate_eval ops self e s = Some (Inr (r, self1, s1))" and
    rc: "validate_record self1 r e s1 = Some (Inr (self2, s2))" and
    cm: "validate_compare self2 r e s2 = Some (Inr (stop, self', s'))"
    by (auto simp: validate_def split: option.splits sum.splits prod.splits)
  from validate_eval_config [OF ev] validate_record_config [OF rc]
  have eq: "impatience self2 = impatience self" "best_valid self2 = best_valid self"
    "valid_optim self2 = valid_optim self" "self_opt self2 = self_opt self1"
    by (simp_all add: same_config_def)
  from validate_compare_step [OF cm] obtain m where
    m: "map_of r (opt_validation_metric (self_opt self2)) = Some m"
    "impatience self' = (if is_best self2 (value m) then 0 else impatience self2 + 1)"
    "best_valid self' = (if is_best self2 (value m) then Some (value m) else best_valid self2)"
    by blast
  have nv: "new_valid ops self e s = Some (value m)"
    using ev m(1) eq by (simp add: new_valid_def)
  have ib: "is_best self2 (value m) = is_best self (value m)"
    using eq by (simp add: is_best_def split: option.splits)
  show ?thesis using nv m(2,3) ib eq by simp
qed

lemma is_best_spec:
  "valid_optim self = 1 \<or> valid_optim self = - 1 \<Longrightarrow>
     is_best self v = spec_strictly_improves (valid_optim self) (best_valid self) v"
  by (auto simp: is_best_def spec_strictly_improves_def split: option.splits)

lemma length_spec_improvements: "length (spec_improvements d b vs) = length vs"
  by (induction vs arbitrary: b) simp_all

lemma non_improving_all:
  assumes "True \<notin> set fs"
  shows "spec_non_improving_since_last fs = length fs"
proof -
  from assms have "\<forall>x\<in>set (rev fs). Not x" by auto
  then have t: "takeWhile Not (rev fs) = rev fs" by (simp only: takeWhile_eq_all_conv)
  show ?thesis by (simp only: spec_non_improving_since_last_def t length_rev)
qed

lemma non_improving_Cons:
  "spec_non_improving_since_last (f # fs) =
     (if True \<in> set fs then spec_non_improving_since_last fs
      else length fs + (if f then 0 else 1))"
proof (cases "True \<in> set fs")
  case True
  then have "True \<in> set (rev fs)" "\<not> Not True" by simp_all
  then have "takeWhile Not (rev fs @ [f]) = takeWhile Not (rev fs)"
    by (rule takeWhile_append1)
  with True show ?thesis by (simp add: spec_non_improving_since_last_def)
next
  case False
  then have "\<And>x. x \<in> set (rev fs) \<Longrightarrow> Not x" by auto
  then have "takeWhile Not (rev fs @ [f]) = rev fs @ takeWhile Not [f]"
    by (rule takeWhile_append2)
  with False show ?thesis by (simp add: spec_non_improving_since_last_def)
qed

lemma validations_run:
  assumes "valid_optim self = 1 \<or> valid_optim self = - 1"
    and "validations ops es self s = Some (Inr (vs, self', s'))"
  shows "length vs = length es
       \<and> impatience self' =
           (if True \<in> set (spec_improvements (valid_optim self) (best_valid self) vs) then 0
            else impatience self)
           + int (spec_non_improving_since_last
                    (spec_improvements (valid_optim self) (best_valid self) vs))"
  using assms
proof (induction es arbitrary: self s vs)
  case Nil
  then show ?case by (simp add: spec_non_improving_since_last_def)
next
  case (Cons e es)
  from Cons.prems(2) obtain stop self1 s1 ws where
    v: "validate ops self e s = Some (Inr (stop, self1, s1))" and
    r: "validations ops es self1 s1 = Some (Inr (ws, self', s'))" and
    vs: "vs = (case new_valid ops self e s of None \<Rightarrow> ws | Some v \<Rightarrow> v # ws)"
    by (auto split: option.splits sum.splits prod.splits)
  from validate_step [OF v] obtain x where
    x: "new_valid ops self e s = Some x"
    "impatience self1 = (if is_best self x then 0 else impatience self + 1)"
    "best_valid self1 = (if is_best self x then Some x else best_valid self)"
    by blast
  have cfg: "valid_optim self1 = valid_optim self"
    using validate_config [OF v] by (simp add: same_config_def)
  have sp: "is_best self x = spec_strictly_improves (valid_optim self) (best_valid self) x"
    using Cons.prems(1) by (rule is_best_spec)
  have d1: "valid_optim self1 = 1 \<or> valid_optim self1 = - 1"
    using cfg Cons.prems(1) by simp
  note ih = Cons.IH [OF d1 r]
  have vs': "vs = x # ws" using vs x(1) by simp
  show ?case
    using ih x(2,3) sp cfg
    by (simp add: vs' non_improving_Cons non_improving_all length_spec_improvements)
qed

lemmas run_defs =
  TrainLoop_init_def default_opts_def single_worker_def worker_def empty_sys_def
  trainstats_suffix_def from_checkpoint_def truthy_def smart_defaults_def load_best_valid_def
  load_train_stats_def Let_def Timer_def positive_or_inf_def isfile_def model_path_def
  validate_def validate_eval_def validate_record_def validate_compare_def run_eval_def
  run_single_eval_def counting_def dict_def sync_metrics_def new_valid_def
  is_best_def out_of_patience_def timer_reset_def timer_time_def values_only_def
  validate_max_exs_def

subsection \<open>The actions of an iteration\<close>

lemma exceeds_finite: "exceeds x b \<Longrightarrow> b \<noteq> PosInf"
  by (cases b) simp_all

lemma reaches_finite: "reaches x b \<Longrightarrow> b \<noteq> PosInf"
  by (cases b) simp_all

lemma acts_ok_Nil: "acts_ok self []"
  by (simp add: acts_ok_def)

lemma acts_ok_append: "acts_ok self a \<Longrightarrow> acts_ok self b \<Longrightarrow> acts_ok self (a @ b)"
  by (auto simp: acts_ok_def)

lemma acts_ok_config: "same_config a b \<Longrightarrow> acts_ok a acts \<Longrightarrow> acts_ok b acts"
  by (simp add: acts_ok_def same_config_def)

lemma same_config_sym: "same_config a b \<Longrightarrow> same_config b a"
  by (simp add: same_config_def)

lemma train_checkpoint_acts:
  assumes "train_checkpoint self e s acts = Some (Inr (fl, acts', self', s'))"
    and "acts_ok self acts"
  shows "same_config self self' \<and> acts_ok self acts'"
proof (cases "exceeds (timer_time (save_time self) (now e)) (save_every_n_secs self)
         \<and> truthy (opt_model_file (self_opt self)) \<and> is_primary_worker e")
  case True
  then have fin: "save_every_n_secs self \<noteq> PosInf" by (auto dest: exceeds_finite)
  from assms(1) True have "acts' = acts @ [Save_checkpoint]"
    and "self' = self\<lparr>save_time := timer_reset (save_time self) (now e)\<rparr>"
    by (auto simp: train_checkpoint_def split: option.splits sum.splits)
  with fin assms(2) show ?thesis by (auto simp: same_config_def acts_ok_def)
next
  case False
  with assms show ?thesis by (auto simp: train_checkpoint_def same_config_def)
qed

lemma train_validate_acts:
  assumes "train_validate ops self e s epochs validate_t acts = Some (Inr (fl, acts', self', s'))"
    and "acts_ok self acts"
  shows "same_config self self' \<and> acts_ok self acts'"
proof (cases "exceeds validate_t (val_every_n_secs self)
         \<or> reaches (epochs - last_valid_epoch self) (val_every_n_epochs self)")
  case False
  with assms(1) have "train_checkpoint self e s acts = Some (Inr (fl, acts', self', s'))"
    by (simp add: train_validate_def)
  from train_checkpoint_acts [OF this assms(2)] show ?thesis .
next
  case True
  then have fin: "val_every_n_secs self \<noteq> PosInf \<or> val_every_n_epochs self \<noteq> PosInf"
    by (auto dest: exceeds_finite reaches_finite)
  have ok: "acts_ok self (acts @ [Validate])"
    using assms(2) fin by (auto simp: acts_ok_def)
  show ?thesis
  proof (cases "validate ops self e s")
    case None
    with assms(1) True show ?thesis by (simp add: train_validate_def)
  next
    case (Some res)
    show ?thesis
    proof (cases res)
      case (Inl x)
      with assms(1) True Some ok show ?thesis
        by (auto simp: train_validate_def same_config_def split: if_splits)
    next
      case (Inr t)
      then obtain stop self1 s1 where t: "t = (stop, self1, s1)" by (cases t) auto
      have c1: "same_config self self1"
        using validate_config Some Inr t by blast
      let ?self2 = "self1\<lparr>last_valid_epoch := epochs\<rparr>"
      have c2: "same_config self ?self2" using c1 by (simp add: same_config_def)
      show ?thesis
      proof (cases stop)
        case True
        with assms(1) \<open>exceeds validate_t (val_every_n_secs self)
         \<or> reaches (epochs - last_valid_epoch self) (val_every_n_epochs self)\<close> Some Inr t
        have "acts' = acts @ [Validate]" "self' = ?self2"
          by (auto simp: train_validate_def Let_def)
        with ok c2 show ?thesis by simp
      next
        case False
        with assms(1) \<open>exceeds validate_t (val_every_n_secs self)
         \<or> reaches (epochs - last_valid_epoch self) (val_every_n_epochs self)\<close> Some Inr t
        have tc: "train_checkpoint ?self2 e s1 (acts @ [Validate])
                    = Some (Inr (fl, acts', self', s'))"
          by (auto simp: train_validate_def Let_def)
        from train_checkpoint_acts [OF tc acts_ok_config [OF c2 ok]]
        have "same_config ?self2 self'" "acts_ok ?self2 acts'" by simp_all
        with c2 show ?thesis
          by (blast intro: same_config_trans acts_ok_config same_config_sym)
      qed
    qed
  qed
qed

lemma train_iteration_acts:
  assumes "train_iteration ops self e s = Some (Inr (fl, acts, self', s'))"
  shows "same_config self self' \<and> acts_ok self acts"
proof (cases "parley_stops e")
  case True
  with assms show ?thesis
    by (auto simp: train_iteration_def same_config_def acts_ok_def split: if_splits)
next
  case False
  define epochs where "epochs = preempted_epochs self + real_of_int (num_workers e) * get_total_epochs e"
  define self1 where "self1 = self\<lparr>parleys := parleys self + 1, total_epochs := Some epochs\<rparr>"
  obtain train_t log_t validate_t where
    sy: "sync_object e (timer_time (train_time self1) (now e),
                        timer_time (log_time self1) (now e),
                        timer_time (validate_time self1) (now e)) = (train_t, log_t, validate_t)"
    by (metis prod_cases3)
  have c1: "same_config self self1" by (simp add: self1_def same_config_def)
  have c2: "same_config self (log_entry self1 e)"
    by (simp add: self1_def same_config_def log_entry_def)
  have it: "train_iteration ops self e s =
      (if reaches epochs (max_num_epochs self1)
       then Some (Inr (Break, [Log, Print_num_epochs_completed], log_entry self1 e, s))
       else if exceeds train_t (max_train_time self1)
       then Some (Inr (Break, [Print_max_train_time_elapsed], self1, s))
       else if exceeds log_t (log_every_n_secs self1)
       then train_validate ops (log_entry self1 e) e s epochs validate_t [Log]
       else train_validate ops self1 e s epochs validate_t [])"
    using False sy unfolding train_iteration_def Let_def epochs_def [symmetric] self1_def [symmetric]
    by simp
  consider (a) "reaches epochs (max_num_epochs self1)"
    | (b) "\<not> reaches epochs (max_num_epochs self1)" "exceeds train_t (max_train_time self1)"
    | (c) "\<not> reaches epochs (max_num_epochs self1)" "\<not> exceeds train_t (max_train_time self1)"
          "exceeds log_t (log_every_n_secs self1)"
    | (d) "\<not> reaches epochs (max_num_epochs self1)" "\<not> exceeds train_t (max_train_time self1)"
          "\<not> exceeds log_t (log_every_n_secs self1)"
    by blast
  then show ?thesis
  proof cases
    case a
    then have "max_num_epochs self \<noteq> PosInf"
      using reaches_finite [OF a] by (simp add: self1_def)
    with a assms it c2 show ?thesis by (auto simp: acts_ok_def)
  next
    case b
    then have "max_train_time self \<noteq> PosInf"
      using exceeds_finite [OF b(2)] by (simp add: self1_def)
    with b assms it c1 show ?thesis by (auto simp: acts_ok_def)
  next
    case c
    then have fin: "log_every_n_secs self \<noteq> PosInf"
      using exceeds_finite [OF c(3)] by (simp add: self1_def)
    from c assms it
    have tv: "train_validate ops (log_entry self1 e) e s epochs validate_t [Log]
               = Some (Inr (fl, acts, self', s'))" by simp
    have ok: "acts_ok (log_entry self1 e) [Log]"
      using fin by (simp add: acts_ok_def log_entry_def self1_def)
    from train_validate_acts [OF tv ok] c2 show ?thesis
      by (blast intro: same_config_trans acts_ok_config same_config_sym)
  next
    case d
    from d assms it
    have tv: "train_validate ops self1 e s epochs validate_t [] = Some (Inr (fl, acts, self', s'))"
      by simp
    from train_validate_acts [OF tv acts_ok_Nil] c1 show ?thesis
      by (blast intro: same_config_trans acts_ok_config same_config_sym)
  qed
qed

lemma train_run_acts:
  "train_run ops es self s = Some (Inr (fl, acts, self', s')) \<Longrightarrow>
     same_config self self' \<and> acts_ok self acts"
proof (induction es arbitrary: self s fl acts)
  case Nil
  then show ?case by (simp add: same_config_refl acts_ok_Nil)
next
  case (Cons e es)
  from Cons.prems obtain f1 a1 self1 s1 where
    it: "train_iteration ops self e s = Some (Inr (f1, a1, self1, s1))"
    by (auto split: option.splits sum.splits prod.splits)
  note a = train_iteration_acts [OF it]
  show ?case
  proof (cases f1)
    case Break
    with Cons.prems it a show ?thesis by simp
  next
    case Continue
    with Cons.prems it obtain a2 where
      r: "train_run ops es self1 s1 = Some (Inr (fl, a2, self', s'))" and
      ac: "acts = a1 @ a2"
      by (auto split: option.splits sum.splits prod.splits)
    from Cons.IH [OF r] a ac show ?thesis
      by (blast intro: same_config_trans acts_ok_config same_config_sym acts_ok_append)
  qed
qed

subsection \<open>What the constructor fixes\<close>

lemma load_train_stats_cases:
  assumes "load_train_stats self suffix s = Inr self'"
  shows "self' = self\<lparr>preempted_epochs := 0\<rparr>
       \<or> (\<exists>ep t i vr. self' = self\<lparr>preempted_epochs := ep,
                 train_time := (train_time self)\<lparr>total := t\<rparr>,
                 impatience := i, valid_reports := vr\<rparr>)"
proof (cases "truthy (opt_model_file (self_opt self)) \<and> isfile s (model_path (self_opt self) @ suffix)")
  case False
  with assms show ?thesis by (simp add: load_train_stats_def Let_def)
next
  case True
  with assms obtain obj where
    "files s (model_path (self_opt self) @ suffix) = Some (Json (JObject obj))"
    by (simp add: load_train_stats_def Let_def split: option.splits content.splits json.splits)
  with assms True show ?thesis
    by (simp add: load_train_stats_def Let_def split: option.splits) auto
qed

lemma load_train_stats_config:
  "load_train_stats self suffix s = Inr self' \<Longrightarrow> same_config self self'
     \<and> best_valid self' = best_valid self"
  by (drule load_train_stats_cases) (auto simp: same_config_def)


lemma smart_defaults_metric:
  "opt_validation_metric (smart_defaults cfg) = opt_validation_metric cfg"
  by (simp add: smart_defaults_def Let_def)

lemma smart_defaults_mode:
  "opt_validation_metric_mode (smart_defaults cfg) =
     (if opt_validation_metric cfg \<in> {''loss'', ''ppl'', ''mean_rank''} then Some ''min''
      else if opt_validation_metric cfg \<in> {''accuracy'', ''hits@1'', ''hits@5'', ''f1'', ''bleu''}
      then Some ''max''
      else (case opt_validation_metric_mode cfg of None \<Rightarrow> Some ''max'' | Some m \<Rightarrow> Some m))"
  by (simp add: smart_defaults_def Let_def split: option.splits)

lemma TrainLoop_init_config:
  assumes "TrainLoop_init cfg e s = Inr self"
  shows "\<exists>cfg'. opt_validation_metric cfg' = opt_validation_metric cfg
       \<and> opt_validation_metric_mode cfg' = opt_validation_metric_mode cfg
       \<and> self_opt self = smart_defaults cfg'
       \<and> valid_optim self =
           (if opt_validation_metric_mode (smart_defaults cfg') = Some ''max'' then 1 else - 1)
       \<and> max_num_epochs self = positive_or_inf (opt_num_epochs cfg)
       \<and> max_train_time self = positive_or_inf (opt_max_train_time cfg)
       \<and> log_every_n_secs self = positive_or_inf (opt_log_every_n_secs cfg)
       \<and> val_every_n_secs self = positive_or_inf (opt_validation_every_n_secs cfg)
       \<and> save_every_n_secs self = positive_or_inf (opt_save_every_n_secs cfg)
       \<and> val_every_n_epochs self = positive_or_inf (opt_validation_every_n_epochs cfg)"
proof -
  define cfg1 where "cfg1 = (if from_checkpoint cfg s
      then cfg\<lparr>opt_init_model := Some (model_path cfg @ ''.checkpoint'')\<rparr> else cfg)"
  define cfg2 where "cfg2 = (if opt_dict_file cfg1 = None \<and> truthy (opt_model_file cfg1)
      then cfg1\<lparr>opt_dict_file := Some (model_path cfg1 @ ''.dict'')\<rparr> else cfg1)"
  have k: "opt_validation_metric cfg2 = opt_validation_metric cfg"
    "opt_validation_metric_mode cfg2 = opt_validation_metric_mode cfg"
    "opt_num_epochs cfg2 = opt_num_epochs cfg"
    "opt_max_train_time cfg2 = opt_max_train_time cfg"
    "opt_log_every_n_secs cfg2 = opt_log_every_n_secs cfg"
    "opt_validation_every_n_secs cfg2 = opt_validation_every_n_secs cfg"
    "opt_save_every_n_secs cfg2 = opt_save_every_n_secs cfg"
    "opt_validation_every_n_epochs cfg2 = opt_validation_every_n_epochs cfg"
    by (simp_all add: cfg2_def cfg1_def)
  from assms obtain base :: "'a train_loop" where
    ld: "load_train_stats base (trainstats_suffix cfg s) s = Inr self" and
    b: "self_opt base = smart_defaults cfg2"
       "valid_optim base =
          (if opt_validation_metric_mode (smart_defaults cfg2) = Some ''max'' then 1 else - 1)"
       "max_num_epochs base = positive_or_inf (opt_num_epochs cfg2)"
       "max_train_time base = positive_or_inf (opt_max_train_time cfg2)"
       "log_every_n_secs base = positive_or_inf (opt_log_every_n_secs cfg2)"
       "val_every_n_secs base = positive_or_inf (opt_validation_every_n_secs cfg2)"
       "save_every_n_secs base = positive_or_inf (opt_save_every_n_secs cfg2)"
       "val_every_n_epochs base = positive_or_inf (opt_validation_every_n_epochs cfg2)"
    unfolding TrainLoop_init_def Let_def cfg1_def [symmetric] cfg2_def [symmetric]
    by (simp split: if_splits sum.splits)
  from load_train_stats_config [OF ld] have sc: "same_config base self" by simp
  have eqs: "self_opt self = self_opt base" "valid_optim self = valid_optim base"
    "max_num_epochs self = max_num_epochs base" "max_train_time self = max_train_time base"
    "log_every_n_secs self = log_every_n_secs base"
    "val_every_n_secs self = val_every_n_secs base"
    "save_every_n_secs self = save_every_n_secs base"
    "val_every_n_epochs self = val_every_n_epochs base"
    using sc by (simp_all add: same_config_def)
  show ?thesis
    by (rule exI [of _ cfg2]) (simp add: eqs b k)
qed

subsection \<open>The statistics file\<close>

lemma smart_defaults_model_file:
  "opt_model_file (smart_defaults cfg) = opt_model_file cfg"
  by (simp add: smart_defaults_def Let_def)

lemma TrainLoop_init_load:
  assumes "TrainLoop_init cfg e s = Inr self"
  shows "\<exists>base. load_train_stats base (trainstats_suffix cfg s) s = Inr self
           \<and> opt_model_file (self_opt base) = opt_model_file cfg"
proof -
  define cfg1 where "cfg1 = (if from_checkpoint cfg s
      then cfg\<lparr>opt_init_model := Some (model_path cfg @ ''.checkpoint'')\<rparr> else cfg)"
  define cfg2 where "cfg2 = (if opt_dict_file cfg1 = None \<and> truthy (opt_model_file cfg1)
      then cfg1\<lparr>opt_dict_file := Some (model_path cfg1 @ ''.dict'')\<rparr> else cfg1)"
  have k: "opt_model_file cfg2 = opt_model_file cfg"
    by (simp add: cfg2_def cfg1_def)
  from assms obtain base :: "'a train_loop" where
    ld: "load_train_stats base (trainstats_suffix cfg s) s = Inr self" and
    b: "self_opt base = smart_defaults cfg2"
    unfolding TrainLoop_init_def Let_def cfg1_def [symmetric] cfg2_def [symmetric]
    by (simp split: if_splits sum.splits)
  show ?thesis
    by (rule exI [of _ base]) (simp add: ld b k smart_defaults_model_file)
qed

lemma load_written:
  assumes "truthy (opt_model_file (self_opt base))"
    and "files s (model_path (self_opt base) @ sfx) = Some (Json (train_stats self e))"
  shows "load_train_stats base sfx s =
      Inr (base\<lparr>preempted_epochs :=
                   preempted_epochs self + real_of_int (num_workers e) * get_total_epochs e,
                train_time := (train_time base)\<lparr>total := timer_time (train_time self) (now e)\<rparr>,
                impatience := impatience self,
                valid_reports := valid_reports self\<rparr>)"
  using assms
  by (simp add: load_train_stats_def Let_def isfile_def train_stats_def obj_get_def)

lemma save_train_stats_written:
  assumes "save_train_stats self suffix e s = Inr s'"
  shows "files s' (save_path (self_opt self) suffix @ ''.trainstats'')
           = Some (Json (train_stats self e))"
  using assms by (auto simp: save_train_stats_def write_file_def split: if_splits)

subsection \<open>Saving under interrupts\<close>

lemma save_attempt_env:
  "save_attempt self suffix e s = (r, s') \<Longrightarrow>
     attempts s' = Suc (attempts s) \<and> signals s' = signals s \<and> denied s' = denied s"
  by (auto simp: save_attempt_def Let_def agent_save_def save_train_stats_def write_file_def
      split: option.splits interrupt.splits sum.splits if_splits)

lemma save_attempt_interrupted:
  assumes "signals s (attempts s) \<noteq> None"
    and "save_path (self_opt self) suffix \<notin> set (denied s)"
  shows "fst (save_attempt self suffix e s) = Some KeyboardInterrupt"
  using assms
  by (auto simp: save_attempt_def Let_def agent_save_def write_file_def
      split: option.splits interrupt.splits)

lemma save_attempt_clear:
  assumes "signals s (attempts s) = None"
    and "save_path (self_opt self) suffix \<notin> set (denied s)"
    and "save_path (self_opt self) suffix @ ''.trainstats'' \<notin> set (denied s)"
  shows "save_attempt self suffix e s =
     (None, s\<lparr>attempts := Suc (attempts s),
              files := (files s)(save_path (self_opt self) suffix \<mapsto> Snapshot,
                 save_path (self_opt self) suffix @ ''.trainstats'' \<mapsto> Json (train_stats self e))\<rparr>)"
  using assms
  by (simp add: save_attempt_def Let_def agent_save_def save_train_stats_def write_file_def)

lemma save_attempt_success_clear:
  "save_attempt self suffix e s = (None, s') \<Longrightarrow> signals s (attempts s) = None"
  by (auto simp: save_attempt_def Let_def split: option.splits interrupt.splits sum.splits)

lemma save_attempt_error_denied:
  "save_attempt self suffix e s = (Some x, s') \<Longrightarrow> x \<noteq> KeyboardInterrupt \<Longrightarrow>
     save_path (self_opt self) suffix \<in> set (denied s)
     \<or> save_path (self_opt self) suffix @ ''.trainstats'' \<in> set (denied s)"
  by (auto simp: save_attempt_def Let_def agent_save_def save_train_stats_def write_file_def
      split: option.splits interrupt.splits sum.splits if_splits)

lemma save_loop_never_interrupt:
  "save_loop self suffix e s = Some y \<Longrightarrow> y \<noteq> Inl KeyboardInterrupt"
  by (induction rule: save_loop.raw_induct [rotated 1, consumes 1])
     (auto split: prod.splits option.splits if_splits)

lemma save_loop_returns_clear:
  "save_loop self suffix e s = Some y \<Longrightarrow>
     (\<exists>j. signals s (attempts s + j) = None)
     \<or> save_path (self_opt self) suffix \<in> set (denied s)
     \<or> save_path (self_opt self) suffix @ ''.trainstats'' \<in> set (denied s)"
proof (induction rule: save_loop.raw_induct [rotated 1, consumes 1])
  case (1 save_loop' self suffix e s y)
  obtain r s1 where a: "save_attempt self suffix e s = (r, s1)" by (cases "save_attempt self suffix e s")
  note env = save_attempt_env [OF a]
  show ?case
  proof (cases r)
    case None
    with a have "signals s (attempts s + 0) = None"
      by (simp add: save_attempt_success_clear)
    then show ?thesis by blast
  next
    case (Some x)
    show ?thesis
    proof (cases "x = KeyboardInterrupt")
      case True
      with 1(2) a Some have "save_loop' self suffix e s1 = Some y" by simp
      from 1(1) [OF this] env
      consider j where "signals s (Suc (attempts s) + j) = None"
        | "save_path (self_opt self) suffix \<in> set (denied s)"
        | "save_path (self_opt self) suffix @ ''.trainstats'' \<in> set (denied s)"
        by auto
      then show ?thesis
      proof cases
        case 1
        then have "signals s (attempts s + Suc j) = None" by simp
        then show ?thesis by blast
      qed auto
    next
      case False
      with a Some save_attempt_error_denied show ?thesis by blast
    qed
  qed
qed

lemma save_loop_retries:
  assumes "\<forall>j<k. signals s (attempts s + j) \<noteq> None"
    and "signals s (attempts s + k) = None"
    and "save_path (self_opt self) suffix \<notin> set (denied s)"
    and "save_path (self_opt self) suffix @ ''.trainstats'' \<notin> set (denied s)"
  shows "\<exists>s'. save_loop self suffix e s = Some (Inr s')
       \<and> attempts s' = attempts s + k + 1
       \<and> files s' (save_path (self_opt self) suffix) = Some Snapshot
       \<and> files s' (save_path (self_opt self) suffix @ ''.trainstats'')
           = Some (Json (train_stats self e))"
  using assms
proof (induction k arbitrary: s)
  case 0
  then have c: "signals s (attempts s) = None" by simp
  show ?case
    by (subst save_loop.simps) (simp add: save_attempt_clear [OF c 0(3) 0(4)])
next
  case (Suc k)
  from Suc.prems(1) have i: "signals s (attempts s) \<noteq> None" by force
  obtain r s1 where a: "save_attempt self suffix e s = (r, s1)"
    by (cases "save_attempt self suffix e s")
  from save_attempt_interrupted [OF i Suc.prems(3), of e] a
  have r: "r = Some KeyboardInterrupt" by simp
  note env = save_attempt_env [OF a]
  have p1: "\<forall>j<k. signals s1 (attempts s1 + j) \<noteq> None"
  proof (intro allI impI)
    fix j assume "j < k"
    then have "Suc j < Suc k" by simp
    with Suc.prems(1) have "signals s (attempts s + Suc j) \<noteq> None" by blast
    then show "signals s1 (attempts s1 + j) \<noteq> None" using env by simp
  qed
  have p2: "signals s1 (attempts s1 + k) = None" using Suc.prems(2) env by simp
  have p3: "save_path (self_opt self) suffix \<notin> set (denied s1)"
    and p4: "save_path (self_opt self) suffix @ ''.trainstats'' \<notin> set (denied s1)"
    using Suc.prems(3,4) env by simp_all
  from Suc.IH [OF p1 p2 p3 p4] obtain s' where
    s': "save_loop self suffix e s1 = Some (Inr s')"
    "attempts s' = attempts s1 + k + 1"
    "files s' (save_path (self_opt self) suffix) = Some Snapshot"
    "files s' (save_path (self_opt self) suffix @ ''.trainstats'')
       = Some (Json (train_stats self e))"
    by blast
  have "save_loop self suffix e s = save_loop self suffix e s1"
    by (subst save_loop.simps) (simp add: a r)
  with s' env show ?case by simp
qed

subsection \<open>A single evaluation pass\<close>

lemma eval_loop_skip:
  "\<forall>k<n. \<not> pass_ends ops mc w k \<Longrightarrow>
     eval_loop ops mc w 0 = eval_loop ops mc ((parley ops ^^ n) w) (examples_after ops w n)"
proof (induction n)
  case 0
  show ?case by simp
next
  case (Suc n)
  then have ih: "eval_loop ops mc w 0
      = eval_loop ops mc ((parley ops ^^ n) w) (examples_after ops w n)" by simp
  from Suc.prems have ne: "\<not> pass_ends ops mc w n" by simp
  have "eval_loop ops mc ((parley ops ^^ n) w) (examples_after ops w n)
      = eval_loop ops mc ((parley ops ^^ Suc n) w) (examples_after ops w (Suc n))"
    using ne by (subst eval_loop.simps) (simp add: pass_ends_def)
  with ih show ?case by simp
qed

lemma eval_loop_stop:
  "pass_ends ops mc w n \<Longrightarrow>
     eval_loop ops mc ((parley ops ^^ n) w) (examples_after ops w n)
       = Some ((parley ops ^^ n) w, examples_after ops w n)"
  by (subst eval_loop.simps) (auto simp: pass_ends_def)

lemma eval_loop_first_end:
  assumes "pass_ends ops mc w n" and "\<forall>k<n. \<not> pass_ends ops mc w k"
  shows "eval_loop ops mc w 0 = Some ((parley ops ^^ n) w, examples_after ops w n)"
  using eval_loop_skip [OF assms(2)] eval_loop_stop [OF assms(1)] by simp

lemma eval_loop_returns_ends:
  "eval_loop ops mc w' c' = Some y \<Longrightarrow>
     (\<forall>w n. w' = (parley ops ^^ n) w \<and> c' = examples_after ops w n \<longrightarrow>
        (\<exists>m. pass_ends ops mc w m))"
proof (induction rule: eval_loop.raw_induct [rotated 1, consumes 1])
  case (1 eval_loop' ops mc w' c' y)
  show ?case
  proof (intro allI impI)
    fix w n
    assume st: "w' = (parley ops ^^ n) w \<and> c' = examples_after ops w n"
    show "\<exists>m. pass_ends ops mc w m"
    proof (cases "\<not> epoch_done ops w' \<and> below c' mc")
      case False
      with st have "pass_ends ops mc w n" by (auto simp: pass_ends_def)
      then show ?thesis ..
    next
      case True
      with 1(2) have r: "eval_loop' ops mc (parley ops w') (c' + batchsize ops (parley ops w')) = Some y"
        by simp
      have "parley ops w' = (parley ops ^^ Suc n) w
          \<and> c' + batchsize ops (parley ops w') = examples_after ops w (Suc n)"
        using st by simp
      with 1(1) [OF r] show ?thesis by blast
    qed
  qed
qed

lemma eval_loop_never_ends:
  assumes "\<forall>n. \<not> pass_ends ops mc w n"
  shows "eval_loop ops mc w 0 = None"
proof (cases "eval_loop ops mc w 0")
  case None
  then show ?thesis .
next
  case (Some y)
  from eval_loop_returns_ends [OF Some]
  have "w = (parley ops ^^ 0) w \<and> 0 = examples_after ops w 0 \<longrightarrow>
      (\<exists>m. pass_ends ops mc w m)"
    by blast
  then have "\<exists>m. pass_ends ops mc w m" by simp
  with assms show ?thesis by blast
qed


lemma pass_ends_unbounded:
  "max_exs \<le> 0 \<Longrightarrow>
     pass_ends ops (positive_or_inf max_exs) w n = epoch_done ops ((parley ops ^^ n) w)"
  by (simp add: pass_ends_def positive_or_inf_def)

lemma pass_ends_bounded:
  "max_exs > 0 \<Longrightarrow>
     pass_ends ops (positive_or_inf max_exs) w n =
       (epoch_done ops ((parley ops ^^ n) w) \<or> real_of_int (examples_after ops w n) \<ge> max_exs)"
  by (auto simp: pass_ends_def positive_or_inf_def)

lemma run_single_eval_first_end:
  assumes "pass_ends ops (positive_or_inf max_exs) (reset ops w) n"
    and "\<forall>k<n. \<not> pass_ends ops (positive_or_inf max_exs) (reset ops w) k"
  shows "run_single_eval ops w max_exs =
     Some (report ops ((parley ops ^^ n) (reset ops w)),
           reset ops ((parley ops ^^ n) (reset ops w)))"
  by (simp add: run_single_eval_def eval_loop_first_end [OF assms])

lemma run_single_eval_never_ends:
  assumes "\<forall>n. \<not> pass_ends ops (positive_or_inf max_exs) (reset ops w) n"
  shows "run_single_eval ops w max_exs = None"
  by (simp add: run_single_eval_def eval_loop_never_ends [OF assms])

lemma counting_parleys: "(parley (counting m) ^^ k) w = w + int k"
  by (induction k) (simp_all add: counting_def)

lemma counting_examples_after: "examples_after (counting m) w k = int k"
  by (induction k) (simp_all add: counting_def)

section \<open>Properties\<close>

text \<open>
  C1. Let the direction of a training loop be 1 (\<^verbatim>\<open>max\<close>) or -1 (\<^verbatim>\<open>min\<close>), as the
  constructor sets it. Every call of \<^verbatim>\<open>validate\<close> that returns has compared a value
  \<open>v\<close> with the best one: if \<open>v\<close> strictly improves on \<^verbatim>\<open>best_valid\<close> under the
  direction (always, when there is no best value yet), impatience is 0 afterwards and
  \<^verbatim>\<open>best_valid\<close> is \<open>v\<close>; otherwise impatience has grown by exactly 1 and
  \<^verbatim>\<open>best_valid\<close> is unchanged. Hence after any run of validations, impatience is the
  number of consecutive non-improving validations since the last improvement, added to
  the impatience the run started with (0 for a new loop) when no validation improved.
\<close>

theorem impatience_counts_non_improving_validations:
  assumes "valid_optim self = 1 \<or> valid_optim self = - 1"
  shows "(\<forall>stop self1 s1. validate ops self e s = Some (Inr (stop, self1, s1)) \<longrightarrow>
            (\<exists>v. new_valid ops self e s = Some v
               \<and> (spec_strictly_improves (valid_optim self) (best_valid self) v \<longrightarrow>
                    impatience self1 = 0 \<and> best_valid self1 = Some v)
               \<and> (\<not> spec_strictly_improves (valid_optim self) (best_valid self) v \<longrightarrow>
                    impatience self1 = impatience self + 1
                    \<and> best_valid self1 = best_valid self)))
       \<and> (\<forall>vs self' s'. validations ops es self s = Some (Inr (vs, self', s')) \<longrightarrow>
            length vs = length es
            \<and> impatience self' =
                (if True \<in> set (spec_improvements (valid_optim self) (best_valid self) vs)
                 then 0 else impatience self)
                + int (spec_non_improving_since_last
                         (spec_improvements (valid_optim self) (best_valid self) vs)))"
proof (intro conjI allI impI)
  fix stop self1 s1
  assume v: "validate ops self e s = Some (Inr (stop, self1, s1))"
  from validate_step [OF v] obtain x where
    x: "new_valid ops self e s = Some x"
    "impatience self1 = (if is_best self x then 0 else impatience self + 1)"
    "best_valid self1 = (if is_best self x then Some x else best_valid self)"
    by blast
  have sp: "is_best self x = spec_strictly_improves (valid_optim self) (best_valid self) x"
    using assms by (rule is_best_spec)
  show "\<exists>v. new_valid ops self e s = Some v
      \<and> (spec_strictly_improves (valid_optim self) (best_valid self) v \<longrightarrow>
           impatience self1 = 0 \<and> best_valid self1 = Some v)
      \<and> (\<not> spec_strictly_improves (valid_optim self) (best_valid self) v \<longrightarrow>
           impatience self1 = impatience self + 1 \<and> best_valid self1 = best_valid self)"
    using x sp by simp
next
  fix vs self' s'
  assume r: "validations ops es self s = Some (Inr (vs, self', s'))"
  from validations_run [OF assms r] show "length vs = length es" by simp
next
  fix vs self' s'
  assume r: "validations ops es self s = Some (Inr (vs, self', s'))"
  from validations_run [OF assms r]
  show "impatience self' =
      (if True \<in> set (spec_improvements (valid_optim self) (best_valid self) vs)
       then 0 else impatience self)
      + int (spec_non_improving_since_last
               (spec_improvements (valid_optim self) (best_valid self) vs))"
    by simp
qed

text \<open>A new loop validates twice on a source of three examples: the first value, 3,
  improves, the second, 3 again, does not, and impatience is 1.\<close>

theorem impatience_counts_non_improving_validations_witness:
  "\<exists>self0 self' s'.
     (TrainLoop_init (default_opts\<lparr>opt_dict_file := Some ''d''\<rparr>) single_worker empty_sys
        :: exn + int train_loop) = Inr self0
     \<and> validations (counting 3) [single_worker, single_worker] self0 empty_sys
         = Some (Inr ([3, 3], self', s'))
     \<and> impatience self' = 1"
proof -
  have "\<exists>self0. (TrainLoop_init (default_opts\<lparr>opt_dict_file := Some ''d''\<rparr>) single_worker
           empty_sys :: exn + int train_loop) = Inr self0
       \<and> valid_optim self0 = 1 \<and> impatience self0 = 0 \<and> best_valid self0 = None
       \<and> (\<exists>self' s'. validations (counting 3) [single_worker, single_worker] self0 empty_sys
             = Some (Inr ([3, 3], self', s')))"
    by (simp add: run_defs eval_loop.simps)
  then obtain self0 :: "int train_loop" and self' s' where
    i: "TrainLoop_init (default_opts\<lparr>opt_dict_file := Some ''d''\<rparr>) single_worker empty_sys
          = Inr self0" and
    f: "valid_optim self0 = 1" "impatience self0 = 0" "best_valid self0 = None" and
    r: "validations (counting 3) [single_worker, single_worker] self0 empty_sys
          = Some (Inr ([3, 3], self', s'))"
    by blast
  have d: "valid_optim self0 = 1 \<or> valid_optim self0 = - 1" using f by simp
  from impatience_counts_non_improving_validations [OF d, of "counting 3" single_worker
      empty_sys "[single_worker, single_worker]"] r
  have "impatience self' =
      (if True \<in> set (spec_improvements (valid_optim self0) (best_valid self0) [3, 3])
       then 0 else impatience self0)
      + int (spec_non_improving_since_last
               (spec_improvements (valid_optim self0) (best_valid self0) [3, 3]))"
    by blast
  then have "impatience self' = 1"
    by (simp add: f spec_strictly_improves_def spec_non_improving_since_last_def)
  with i r show ?thesis by blast
qed

text \<open>
  C2. With 4 workers and \<^verbatim>\<open>validation_max_exs = 10\<close>, the local variable \<^verbatim>\<open>max_exs\<close>
  of \<^verbatim>\<open>validate\<close> is 2, 2, 2 and 3 on the ranks 0, 1, 2 and 3, not 3, 3, 2 and 2: the
  comparison \<^verbatim>\<open>validation_max_exs % num_workers() < get_rank()\<close> gives the extra
  example to the ranks above the remainder. The variable is then not used:
  \<^verbatim>\<open>run_eval\<close> is called with \<^verbatim>\<open>opt['validation_max_exs']\<close>, and on a source of 100
  examples worker 0 evaluates 10 examples.
\<close>

theorem validate_max_exs_not_even_share_and_unused:
  "map (\<lambda>r. validate_max_exs (default_opts\<lparr>opt_validation_max_exs := 10\<rparr>) (worker 4 r))
       [0, 1, 2, 3] = [2, 2, 2, 3]
   \<and> (\<exists>self0 self1 s1.
         (TrainLoop_init (default_opts\<lparr>opt_validation_max_exs := 10, opt_dict_file := Some ''d''\<rparr>)
            (worker 4 0) empty_sys :: exn + int train_loop) = Inr self0
         \<and> validate_eval (counting 100) self0 (worker 4 0) empty_sys
             = Some (Inr ([(''exs'', Number 10), (''accuracy'', Metric 10)], self1, s1)))"
  by (simp add: run_defs eval_loop.simps)

text \<open>
  C3. With a wall-time budget of 100 seconds configured through \<^verbatim>\<open>--max-train-time\<close>, no
  epoch budget, one epoch completed and 10 seconds elapsed, \<^verbatim>\<open>_compute_eta\<close> returns
  \<^verbatim>\<open>None\<close>: the budget is stored under \<^verbatim>\<open>max_train_time\<close> and the function reads
  \<^verbatim>\<open>max_training_time\<close>, so the cap \<open>100 - 10\<close> is never applied.
\<close>

theorem compute_eta_ignores_max_train_time:
  "compute_eta (default_opts\<lparr>opt_max_train_time := 100\<rparr>) 1 10 = None"
  by (simp add: compute_eta_def opt_get_default_def opt_get_def default_opts_def)

text \<open>
  C4. In an iteration whose training step does not raise, the epoch check comes first:
  when the total of epochs has reached \<^verbatim>\<open>max_num_epochs\<close> the iteration logs once,
  prints the message and breaks, whatever the training time is. Otherwise, when the
  synchronised training time exceeds \<^verbatim>\<open>max_train_time\<close>, it prints the message and
  breaks without a log entry.
\<close>

theorem stopping_checks_in_order:
  assumes "\<not> parley_stops e"
    and "epochs = preempted_epochs self + real_of_int (num_workers e) * get_total_epochs e"
    and "self1 = self\<lparr>parleys := parleys self + 1, total_epochs := Some epochs\<rparr>"
    and "sync_object e (timer_time (train_time self) (now e),
                        timer_time (log_time self) (now e),
                        timer_time (validate_time self) (now e)) = (train_t, log_t, validate_t)"
  shows "(reaches epochs (max_num_epochs self) \<longrightarrow>
            train_iteration ops self e s
              = Some (Inr (Break, [Log, Print_num_epochs_completed], log_entry self1 e, s)))
       \<and> (\<not> reaches epochs (max_num_epochs self) \<and> exceeds train_t (max_train_time self) \<longrightarrow>
            train_iteration ops self e s
              = Some (Inr (Break, [Print_max_train_time_elapsed], self1, s)))"
  using assms by (simp add: train_iteration_def Let_def)

text \<open>A loop with an epoch budget of 1 and a time budget of 10 seconds, started at
  time 0: at time 20 with one epoch done, both budgets are used up and the iteration
  ends on the epoch check, with a log entry; with half an epoch done it ends on the
  time check, without one.\<close>

theorem stopping_checks_in_order_witness:
  "\<exists>self0 self1 self2.
     (TrainLoop_init (default_opts\<lparr>opt_num_epochs := 1, opt_max_train_time := 10,
          opt_dict_file := Some ''d''\<rparr>) single_worker empty_sys :: exn + int train_loop)
       = Inr self0
     \<and> train_iteration (counting 3) self0 (single_worker\<lparr>now := 20, get_total_epochs := 1\<rparr>)
          empty_sys
        = Some (Inr (Break, [Log, Print_num_epochs_completed], self1, empty_sys))
     \<and> train_iteration (counting 3) self0 (single_worker\<lparr>now := 20, get_total_epochs := 1 / 2\<rparr>)
          empty_sys
        = Some (Inr (Break, [Print_max_train_time_elapsed], self2, empty_sys))"
proof -
  have "\<exists>self0. (TrainLoop_init (default_opts\<lparr>opt_num_epochs := 1, opt_max_train_time := 10,
          opt_dict_file := Some ''d''\<rparr>) single_worker empty_sys :: exn + int train_loop)
       = Inr self0
     \<and> max_num_epochs self0 = Fin 1 \<and> max_train_time self0 = Fin 10
     \<and> preempted_epochs self0 = 0 \<and> train_time self0 = Timer 0 \<and> log_time self0 = Timer 0
     \<and> validate_time self0 = Timer 0"
    by (simp add: run_defs)
  then obtain self0 :: "int train_loop" where
    i: "TrainLoop_init (default_opts\<lparr>opt_num_epochs := 1, opt_max_train_time := 10,
          opt_dict_file := Some ''d''\<rparr>) single_worker empty_sys = Inr self0" and
    f: "max_num_epochs self0 = Fin 1" "max_train_time self0 = Fin 10"
       "preempted_epochs self0 = 0" "train_time self0 = Timer 0" "log_time self0 = Timer 0"
       "validate_time self0 = Timer 0"
    by blast
  let ?e1 = "single_worker\<lparr>now := 20, get_total_epochs := 1\<rparr>"
  let ?e2 = "single_worker\<lparr>now := 20, get_total_epochs := 1 / 2\<rparr>"
  have n1: "\<not> parley_stops ?e1" and n2: "\<not> parley_stops ?e2"
    by (simp_all add: single_worker_def)
  have s1: "sync_object ?e1 (timer_time (train_time self0) (now ?e1),
              timer_time (log_time self0) (now ?e1),
              timer_time (validate_time self0) (now ?e1)) = (20, 20, 20)"
    and s2: "sync_object ?e2 (timer_time (train_time self0) (now ?e2),
              timer_time (log_time self0) (now ?e2),
              timer_time (validate_time self0) (now ?e2)) = (20, 20, 20)"
    by (simp_all add: single_worker_def f timer_time_def Timer_def)
  have a: "train_iteration (counting 3) self0 ?e1 empty_sys
        = Some (Inr (Break, [Log, Print_num_epochs_completed],
             log_entry (self0\<lparr>parleys := parleys self0 + 1, total_epochs := Some 1\<rparr>) ?e1,
             empty_sys))"
    using stopping_checks_in_order [OF n1 _ refl s1, of 1 "counting 3" empty_sys]
    by (simp add: f single_worker_def)
  have b: "train_iteration (counting 3) self0 ?e2 empty_sys
        = Some (Inr (Break, [Print_max_train_time_elapsed],
             self0\<lparr>parleys := parleys self0 + 1, total_epochs := Some (1 / 2)\<rparr>, empty_sys))"
    using stopping_checks_in_order [OF n2 _ refl s2, of "1 / 2" "counting 3" empty_sys]
    by (simp add: f single_worker_def)
  from i a b show ?thesis by blast
qed

text \<open>
  C5, as the specification states it, fails: with a model file \<^verbatim>\<open>m\<close>,
  \<^verbatim>\<open>write_log\<close> set and \<^verbatim>\<open>open('m.valid', 'a+')\<close> raising \<^verbatim>\<open>OSError\<close>, the call of
  \<^verbatim>\<open>run_eval\<close> raises \<^verbatim>\<open>OSError\<close> and returns no report.
\<close>

theorem run_eval_log_failure_counterexample:
  "run_eval (counting 3) (Some [0]) (default_opts\<lparr>opt_model_file := Some ''m''\<rparr>) ''valid''
     (- 1) True (empty_sys\<lparr>denied := [''m.valid'']\<rparr>) = Some (Inl OSError)"
  by (simp add: run_defs eval_loop.simps append_file_def)

text \<open>
  C5, amended. \<^verbatim>\<open>run_eval\<close> has no handler around the write of the log file. With a
  model file configured and \<^verbatim>\<open>write_log\<close> set, once the worlds are evaluated: an
  error of the append is raised to the caller and no report is returned (so it is when
  \<^verbatim>\<open>open\<close> is refused); when the append succeeds, the report is returned and the file
  system holds the appended line.
\<close>

theorem run_eval_log_failure_propagates:
  assumes "truthy (opt_model_file cfg)"
    and "eval_worlds ops max_exs (length worlds) worlds = Some (reports, worlds')"
    and "rep = nice_report ops (aggregate_named_reports ops
                 (dict (zip (map (getID ops) worlds) reports)))"
    and "path = model_path cfg @ ''.'' @ datatype"
    and "line = (datatype @ '':'' @ str_report ops rep) @ [CHR 0x0A]"
  shows "(\<forall>x. append_file path line s = Inl x \<longrightarrow>
            run_eval ops (Some worlds) cfg datatype max_exs True s = Some (Inl x))
       \<and> (\<forall>s'. append_file path line s = Inr s' \<longrightarrow>
            run_eval ops (Some worlds) cfg datatype max_exs True s
              = Some (Inr (Some rep, Some worlds', s')))
       \<and> (path \<in> set (denied s) \<longrightarrow>
            run_eval ops (Some worlds) cfg datatype max_exs True s = Some (Inl OSError))"
proof -
  have re: "run_eval ops (Some worlds) cfg datatype max_exs True s =
      (case append_file path line s of
         Inl x \<Rightarrow> Some (Inl x)
       | Inr s' \<Rightarrow> Some (Inr (Some rep, Some worlds', s')))"
    unfolding assms(3-5) using assms(1,2)
    by (simp add: run_eval_def Let_def split: sum.splits)
  show ?thesis
    by (simp add: re) (simp add: append_file_def)
qed

text \<open>The test log of model \<^verbatim>\<open>m\<close>: refused, the call raises; permitted, the line
  is appended and the report returned.\<close>

theorem run_eval_log_failure_propagates_witness:
  "run_eval (counting 3) (Some [0]) (default_opts\<lparr>opt_model_file := Some ''m''\<rparr>) ''test''
     (- 1) True (empty_sys\<lparr>denied := [''m.test'']\<rparr>) = Some (Inl OSError)
   \<and> (\<exists>s'. run_eval (counting 3) (Some [0]) (default_opts\<lparr>opt_model_file := Some ''m''\<rparr>)
          ''test'' (- 1) True empty_sys
        = Some (Inr (Some [(''exs'', Number 3), (''accuracy'', Metric 3)], Some [0], s'))
        \<and> files s' ''m.test'' = Some (Lines [''test:report'' @ [CHR 0x0A]]))"
proof -
  let ?cfg = "default_opts\<lparr>opt_model_file := Some ''m''\<rparr>"
  let ?rep = "[(''exs'', Number 3), (''accuracy'', Metric 3)]"
  have t: "truthy (opt_model_file ?cfg)" by (simp add: truthy_def default_opts_def)
  have ew: "eval_worlds (counting 3) (- 1) (length [0::int]) [0] = Some ([?rep], [0])"
    by (simp add: run_defs eval_loop.simps)
  have rp: "?rep = nice_report (counting 3) (aggregate_named_reports (counting 3)
                 (dict (zip (map (getID (counting 3)) [0::int]) [?rep])))"
    by (simp add: counting_def dict_def)
  have pa: "''m.test'' = model_path ?cfg @ ''.'' @ ''test''"
    by (simp add: model_path_def default_opts_def)
  have ln: "''test:report'' @ [CHR 0x0A]
      = (''test'' @ '':'' @ str_report (counting 3) ?rep) @ [CHR 0x0A]"
    by (simp add: counting_def)
  note th = run_eval_log_failure_propagates [OF t ew rp pa ln]
  have a: "run_eval (counting 3) (Some [0]) ?cfg ''test'' (- 1) True
             (empty_sys\<lparr>denied := [''m.test'']\<rparr>) = Some (Inl OSError)"
    using th [of "empty_sys\<lparr>denied := [''m.test'']\<rparr>"] by simp
  have ap: "append_file ''m.test'' (''test:report'' @ [CHR 0x0A]) empty_sys
      = Inr (empty_sys\<lparr>files := (files empty_sys)(''m.test'' \<mapsto> Lines [''test:report'' @ [CHR 0x0A]])\<rparr>)"
    by (simp add: append_file_def empty_sys_def)
  have b: "run_eval (counting 3) (Some [0]) ?cfg ''test'' (- 1) True empty_sys
      = Some (Inr (Some ?rep, Some [0],
          empty_sys\<lparr>files := (files empty_sys)(''m.test'' \<mapsto> Lines [''test:report'' @ [CHR 0x0A]])\<rparr>))"
    using th [of empty_sys] ap by blast
  show ?thesis
    apply (rule conjI [OF a])
    apply (rule exI)
    apply (rule conjI [OF b])
    apply simp
    done
qed

text \<open>
  C6. \<^verbatim>\<open>save_model\<close> never ends by raising \<^verbatim>\<open>KeyboardInterrupt\<close>. On the primary
  worker with a model file whose two paths can be written: when the next \<open>k\<close> save
  attempts are interrupted and the one after is not, the call returns after exactly
  \<open>k + 1\<close> attempts with the snapshot and the statistics written in full; when every
  attempt is interrupted, the call never returns.
\<close>

theorem save_model_swallows_interrupts:
  "save_model self suffix e s \<noteq> Some (Inl KeyboardInterrupt)
   \<and> (is_primary_worker e \<and> truthy (opt_model_file (self_opt self))
        \<and> save_path (self_opt self) suffix \<notin> set (denied s)
        \<and> save_path (self_opt self) suffix @ ''.trainstats'' \<notin> set (denied s) \<longrightarrow>
        (\<forall>k. (\<forall>j<k. signals s (attempts s + j) \<noteq> None) \<and> signals s (attempts s + k) = None \<longrightarrow>
           (\<exists>s'. save_model self suffix e s = Some (Inr s')
              \<and> attempts s' = attempts s + k + 1
              \<and> files s' (save_path (self_opt self) suffix) = Some Snapshot
              \<and> files s' (save_path (self_opt self) suffix @ ''.trainstats'')
                  = Some (Json (train_stats self e))))
        \<and> ((\<forall>j. signals s (attempts s + j) \<noteq> None) \<longrightarrow> save_model self suffix e s = None))"
proof (intro conjI impI allI)
  show "save_model self suffix e s \<noteq> Some (Inl KeyboardInterrupt)"
    using save_loop_never_interrupt [of self suffix e s "Inl KeyboardInterrupt"]
    by (auto simp: save_model_def)
next
  fix k
  assume a: "is_primary_worker e \<and> truthy (opt_model_file (self_opt self))
        \<and> save_path (self_opt self) suffix \<notin> set (denied s)
        \<and> save_path (self_opt self) suffix @ ''.trainstats'' \<notin> set (denied s)"
    and k: "(\<forall>j<k. signals s (attempts s + j) \<noteq> None) \<and> signals s (attempts s + k) = None"
  from a have sm: "save_model self suffix e s = save_loop self suffix e s"
    by (simp add: save_model_def)
  have k1: "\<forall>j<k. signals s (attempts s + j) \<noteq> None" using k by simp
  have k2: "signals s (attempts s + k) = None" using k by simp
  have d1: "save_path (self_opt self) suffix \<notin> set (denied s)" using a by simp
  have d2: "save_path (self_opt self) suffix @ ''.trainstats'' \<notin> set (denied s)"
    using a by simp
  from save_loop_retries [OF k1 k2 d1 d2, of e]
  show "\<exists>s'. save_model self suffix e s = Some (Inr s')
              \<and> attempts s' = attempts s + k + 1
              \<and> files s' (save_path (self_opt self) suffix) = Some Snapshot
              \<and> files s' (save_path (self_opt self) suffix @ ''.trainstats'')
                  = Some (Json (train_stats self e))"
    by (simp only: sm)
next
  assume a: "is_primary_worker e \<and> truthy (opt_model_file (self_opt self))
        \<and> save_path (self_opt self) suffix \<notin> set (denied s)
        \<and> save_path (self_opt self) suffix @ ''.trainstats'' \<notin> set (denied s)"
    and k: "\<forall>j. signals s (attempts s + j) \<noteq> None"
  from a have sm: "save_model self suffix e s = save_loop self suffix e s"
    by (simp add: save_model_def)
  show "save_model self suffix e s = None"
  proof (cases "save_loop self suffix e s")
    case None
    with sm show ?thesis by simp
  next
    case (Some y)
    from save_loop_returns_clear [OF Some] a k show ?thesis by blast
  qed
qed

text \<open>An interrupt during \<^verbatim>\<open>agent.save\<close>, then one during \<^verbatim>\<open>_save_train_stats\<close>: the
  third attempt completes the save of model \<^verbatim>\<open>m\<close>.\<close>

theorem save_model_swallows_interrupts_witness:
  "\<exists>self0 s'.
     (TrainLoop_init (default_opts\<lparr>opt_model_file := Some ''m''\<rparr>) single_worker empty_sys
        :: exn + int train_loop) = Inr self0
     \<and> save_model self0 None single_worker
          (empty_sys\<lparr>signals := (\<lambda>k. if k = 0 then Some During_agent_save
                                     else if k = 1 then Some During_save_train_stats
                                     else None)\<rparr>) = Some (Inr s')
     \<and> attempts s' = 3 \<and> files s' ''m'' = Some Snapshot
     \<and> files s' ''m.trainstats'' = Some (Json (train_stats self0 single_worker))"
proof -
  let ?cfg = "default_opts\<lparr>opt_model_file := Some ''m''\<rparr>"
  let ?s = "empty_sys\<lparr>signals := (\<lambda>k. if k = 0 then Some During_agent_save
                                     else if k = 1 then Some During_save_train_stats
                                     else None)\<rparr>"
  have "\<exists>self0. (TrainLoop_init ?cfg single_worker empty_sys :: exn + int train_loop) = Inr self0
      \<and> opt_model_file (self_opt self0) = Some ''m''"
    by (simp add: run_defs)
  then obtain self0 :: "int train_loop" where
    i: "TrainLoop_init ?cfg single_worker empty_sys = Inr self0" and
    m: "opt_model_file (self_opt self0) = Some ''m''"
    by blast
  have p: "save_path (self_opt self0) None = ''m''"
    by (simp add: save_path_def model_path_def m)
  have h: "is_primary_worker single_worker \<and> truthy (opt_model_file (self_opt self0))
        \<and> save_path (self_opt self0) None \<notin> set (denied ?s)
        \<and> save_path (self_opt self0) None @ ''.trainstats'' \<notin> set (denied ?s)"
    by (simp add: single_worker_def truthy_def m empty_sys_def)
  have k: "(\<forall>j<2. signals ?s (attempts ?s + j) \<noteq> None) \<and> signals ?s (attempts ?s + 2) = None"
    by (auto simp: empty_sys_def)
  from save_model_swallows_interrupts [of self0 None single_worker ?s] h k
  obtain s' where "save_model self0 None single_worker ?s = Some (Inr s')"
    "attempts s' = attempts ?s + 2 + 1"
    "files s' (save_path (self_opt self0) None) = Some Snapshot"
    "files s' (save_path (self_opt self0) None @ ''.trainstats'')
       = Some (Json (train_stats self0 single_worker))"
    by blast
  then have "save_model self0 None single_worker ?s = Some (Inr s')
     \<and> attempts s' = 3 \<and> files s' ''m'' = Some Snapshot
     \<and> files s' ''m.trainstats'' = Some (Json (train_stats self0 single_worker))"
    by (simp add: p empty_sys_def)
  with i show ?thesis by blast
qed

text \<open>
  C7. \<^verbatim>\<open>_run_single_eval\<close> resets the world, makes batch steps, and returns the report
  of the world it then resets again. For \<^verbatim>\<open>max_exs <= 0\<close> the number of steps is the
  first \<open>n\<close> after which the world says its pass is done, whatever the example count,
  and the call never returns if there is no such \<open>n\<close>. For \<^verbatim>\<open>max_exs > 0\<close> it is the
  first \<open>n\<close> after which the pass is done or the cumulative count has reached
  \<^verbatim>\<open>max_exs\<close>, and the call never returns if neither ever happens.
\<close>

theorem single_eval_runs_until_done_or_capped:
  "(max_exs \<le> 0 \<longrightarrow>
      (\<forall>n. epoch_done ops ((parley ops ^^ n) (reset ops w))
            \<and> (\<forall>k<n. \<not> epoch_done ops ((parley ops ^^ k) (reset ops w))) \<longrightarrow>
          run_single_eval ops w max_exs =
            Some (report ops ((parley ops ^^ n) (reset ops w)),
                  reset ops ((parley ops ^^ n) (reset ops w))))
      \<and> ((\<forall>n. \<not> epoch_done ops ((parley ops ^^ n) (reset ops w))) \<longrightarrow>
            run_single_eval ops w max_exs = None))
   \<and> (max_exs > 0 \<longrightarrow>
      (\<forall>n. (epoch_done ops ((parley ops ^^ n) (reset ops w))
               \<or> real_of_int (examples_after ops (reset ops w) n) \<ge> max_exs)
            \<and> (\<forall>k<n. \<not> epoch_done ops ((parley ops ^^ k) (reset ops w))
                      \<and> real_of_int (examples_after ops (reset ops w) k) < max_exs) \<longrightarrow>
          run_single_eval ops w max_exs =
            Some (report ops ((parley ops ^^ n) (reset ops w)),
                  reset ops ((parley ops ^^ n) (reset ops w))))
      \<and> ((\<forall>n. \<not> epoch_done ops ((parley ops ^^ n) (reset ops w))
                \<and> real_of_int (examples_after ops (reset ops w) n) < max_exs) \<longrightarrow>
            run_single_eval ops w max_exs = None))"
proof (intro conjI impI allI)
  fix n
  assume m: "max_exs \<le> 0"
    and d: "epoch_done ops ((parley ops ^^ n) (reset ops w))
            \<and> (\<forall>k<n. \<not> epoch_done ops ((parley ops ^^ k) (reset ops w)))"
  show "run_single_eval ops w max_exs =
            Some (report ops ((parley ops ^^ n) (reset ops w)),
                  reset ops ((parley ops ^^ n) (reset ops w)))"
    by (rule run_single_eval_first_end) (use m d in \<open>simp_all add: pass_ends_unbounded\<close>)
next
  assume m: "max_exs \<le> 0"
    and d: "\<forall>n. \<not> epoch_done ops ((parley ops ^^ n) (reset ops w))"
  show "run_single_eval ops w max_exs = None"
    by (rule run_single_eval_never_ends) (use m d in \<open>simp add: pass_ends_unbounded\<close>)
next
  fix n
  assume m: "0 < max_exs"
    and d: "(epoch_done ops ((parley ops ^^ n) (reset ops w))
               \<or> real_of_int (examples_after ops (reset ops w) n) \<ge> max_exs)
            \<and> (\<forall>k<n. \<not> epoch_done ops ((parley ops ^^ k) (reset ops w))
                      \<and> real_of_int (examples_after ops (reset ops w) k) < max_exs)"
  show "run_single_eval ops w max_exs =
            Some (report ops ((parley ops ^^ n) (reset ops w)),
                  reset ops ((parley ops ^^ n) (reset ops w)))"
    by (rule run_single_eval_first_end)
       (use m d in \<open>auto simp add: pass_ends_bounded not_le\<close>)
next
  assume m: "0 < max_exs"
    and d: "\<forall>n. \<not> epoch_done ops ((parley ops ^^ n) (reset ops w))
                \<and> real_of_int (examples_after ops (reset ops w) n) < max_exs"
  show "run_single_eval ops w max_exs = None"
    by (rule run_single_eval_never_ends)
       (use m d in \<open>auto simp add: pass_ends_bounded not_le\<close>)
qed

text \<open>A source of five examples: without a cap the pass makes five steps, with a cap
  of three it makes three; the world is back at its start in both cases.\<close>

theorem single_eval_runs_until_done_or_capped_witness:
  "run_single_eval (counting 5) 7 (- 1)
     = Some ([(''exs'', Number 5), (''accuracy'', Metric 5)], 0)
   \<and> run_single_eval (counting 5) 7 3
     = Some ([(''exs'', Number 3), (''accuracy'', Metric 3)], 0)"
proof -
  have r: "reset (counting 5) w = 0" for w by (simp add: counting_def)
  have d: "epoch_done (counting 5) x = (x \<ge> 5)" for x by (simp add: counting_def)
  have rp: "report (counting 5) x = [(''exs'', Number (real_of_int x)),
      (''accuracy'', Metric (real_of_int x))]" for x by (simp add: counting_def)
  have u: "epoch_done (counting 5) ((parley (counting 5) ^^ 5) (reset (counting 5) 7))
      \<and> (\<forall>k<5. \<not> epoch_done (counting 5) ((parley (counting 5) ^^ k) (reset (counting 5) 7)))"
    by (simp add: counting_parleys r d)
  have b: "(epoch_done (counting 5) ((parley (counting 5) ^^ 3) (reset (counting 5) 7))
        \<or> real_of_int (examples_after (counting 5) (reset (counting 5) 7) 3) \<ge> 3)
      \<and> (\<forall>k<3. \<not> epoch_done (counting 5) ((parley (counting 5) ^^ k) (reset (counting 5) 7))
              \<and> real_of_int (examples_after (counting 5) (reset (counting 5) 7) k) < 3)"
    by (simp add: counting_parleys counting_examples_after r d)
  note th = single_eval_runs_until_done_or_capped [of _ "counting 5" 7]
  have "run_single_eval (counting 5) 7 (- 1) =
      Some (report (counting 5) ((parley (counting 5) ^^ 5) (reset (counting 5) 7)),
            reset (counting 5) ((parley (counting 5) ^^ 5) (reset (counting 5) 7)))"
    using th [of "- 1"] u by simp
  moreover have "run_single_eval (counting 5) 7 3 =
      Some (report (counting 5) ((parley (counting 5) ^^ 3) (reset (counting 5) 7)),
            reset (counting 5) ((parley (counting 5) ^^ 3) (reset (counting 5) 7)))"
    using th [of 3] b by simp
  ultimately show ?thesis
    by (simp add: counting_parleys r rp)
qed

text \<open>
  C8. Let \<^verbatim>\<open>_save_train_stats\<close> succeed for a loop with a model file, and let a
  constructor for the same model file read the statistics file just written (that is
  \<^verbatim>\<open>.trainstats\<close> after a save without suffix, and \<^verbatim>\<open>.checkpoint.trainstats\<close>, chosen
  when loading from an existing checkpoint, after a save with suffix \<^verbatim>\<open>.checkpoint\<close>).
  Then the load of the constructor succeeds, and in the new object the offset of the
  training timer is the training time saved, the preempted epochs are the total epochs
  saved, and impatience and the validation reports are those saved.
\<close>

theorem train_stats_round_trip:
  assumes "save_train_stats self suffix e s = Inr s'"
    and "truthy (opt_model_file cfg)"
    and "opt_model_file cfg = opt_model_file (self_opt self)"
    and "trainstats_suffix cfg s' = (case suffix of None \<Rightarrow> [] | Some sfx \<Rightarrow> sfx) @ ''.trainstats''"
  shows "(\<forall>base. opt_model_file (self_opt base) = opt_model_file cfg \<longrightarrow>
           (\<exists>new. load_train_stats base (trainstats_suffix cfg s') s' = Inr new
              \<and> total (train_time new) = timer_time (train_time self) (now e)
              \<and> preempted_epochs new
                  = preempted_epochs self + real_of_int (num_workers e) * get_total_epochs e
              \<and> impatience new = impatience self
              \<and> valid_reports new = valid_reports self))
       \<and> (\<forall>e1 new. TrainLoop_init cfg e1 s' = Inr new \<longrightarrow>
              total (train_time new) = timer_time (train_time self) (now e)
              \<and> preempted_epochs new
                  = preempted_epochs self + real_of_int (num_workers e) * get_total_epochs e
              \<and> impatience new = impatience self
              \<and> valid_reports new = valid_reports self)"
proof -
  have w: "\<And>base. opt_model_file (self_opt base) = opt_model_file cfg \<Longrightarrow>
      load_train_stats base (trainstats_suffix cfg s') s' =
      Inr (base\<lparr>preempted_epochs :=
                   preempted_epochs self + real_of_int (num_workers e) * get_total_epochs e,
                train_time := (train_time base)\<lparr>total := timer_time (train_time self) (now e)\<rparr>,
                impatience := impatience self,
                valid_reports := valid_reports self\<rparr>)"
  proof -
    fix base :: "'d train_loop"
    assume m: "opt_model_file (self_opt base) = opt_model_file cfg"
    have t: "truthy (opt_model_file (self_opt base))" using m assms(2) by simp
    have p: "model_path (self_opt base) @ trainstats_suffix cfg s'
               = save_path (self_opt self) suffix @ ''.trainstats''"
      using m assms(3,4) by (simp add: save_path_def model_path_def)
    have f: "files s' (model_path (self_opt base) @ trainstats_suffix cfg s')
               = Some (Json (train_stats self e))"
      using save_train_stats_written [OF assms(1)] p by simp
    from load_written [OF t f] show "load_train_stats base (trainstats_suffix cfg s') s' =
      Inr (base\<lparr>preempted_epochs :=
                   preempted_epochs self + real_of_int (num_workers e) * get_total_epochs e,
                train_time := (train_time base)\<lparr>total := timer_time (train_time self) (now e)\<rparr>,
                impatience := impatience self,
                valid_reports := valid_reports self\<rparr>)" .
  qed
  show ?thesis
  proof (intro conjI allI impI)
    fix base :: "'b train_loop"
    assume "opt_model_file (self_opt base) = opt_model_file cfg"
    from w [OF this] show "\<exists>new. load_train_stats base (trainstats_suffix cfg s') s' = Inr new
              \<and> total (train_time new) = timer_time (train_time self) (now e)
              \<and> preempted_epochs new
                  = preempted_epochs self + real_of_int (num_workers e) * get_total_epochs e
              \<and> impatience new = impatience self
              \<and> valid_reports new = valid_reports self"
      by simp
  next
    fix e1 and new :: "'c train_loop"
    assume "TrainLoop_init cfg e1 s' = Inr new"
    from TrainLoop_init_load [OF this] obtain base where
      l: "load_train_stats base (trainstats_suffix cfg s') s' = Inr new" and
      m: "opt_model_file (self_opt base) = opt_model_file cfg" by blast
    from w [OF m] l have n: "new = base\<lparr>preempted_epochs :=
                   preempted_epochs self + real_of_int (num_workers e) * get_total_epochs e,
                train_time := (train_time base)\<lparr>total := timer_time (train_time self) (now e)\<rparr>,
                impatience := impatience self,
                valid_reports := valid_reports self\<rparr>" by simp
    show "total (train_time new) = timer_time (train_time self) (now e)" by (simp add: n)
    show "preempted_epochs new
           = preempted_epochs self + real_of_int (num_workers e) * get_total_epochs e"
      by (simp add: n)
    show "impatience new = impatience self" by (simp add: n)
    show "valid_reports new = valid_reports self" by (simp add: n)
  qed
qed


text \<open>A loop for model \<^verbatim>\<open>m\<close> with impatience 3 and one report saves at time 7 with two
  epochs done; a new loop for \<^verbatim>\<open>m\<close> starts from these values.\<close>

theorem train_stats_round_trip_witness:
  "\<exists>self0 s' new.
     (TrainLoop_init (default_opts\<lparr>opt_model_file := Some ''m''\<rparr>) single_worker empty_sys
        :: exn + int train_loop) = Inr self0
     \<and> save_train_stats
          (self0\<lparr>impatience := 3, valid_reports := [JObject [(''accuracy'', JFloat 1)]]\<rparr>)
          None (single_worker\<lparr>now := 7, get_total_epochs := 2\<rparr>) empty_sys = Inr s'
     \<and> (TrainLoop_init (default_opts\<lparr>opt_model_file := Some ''m''\<rparr>) single_worker s'
          :: exn + int train_loop) = Inr new
     \<and> total (train_time new) = 7 \<and> preempted_epochs new = 2 \<and> impatience new = 3
     \<and> valid_reports new = [JObject [(''accuracy'', JFloat 1)]]"
proof -
  let ?cfg = "default_opts\<lparr>opt_model_file := Some ''m''\<rparr>"
  let ?e = "single_worker\<lparr>now := 7, get_total_epochs := 2\<rparr>"
  have "\<exists>self0. (TrainLoop_init ?cfg single_worker empty_sys :: exn + int train_loop) = Inr self0
      \<and> train_time self0 = Timer 0 \<and> preempted_epochs self0 = 0
      \<and> opt_model_file (self_opt self0) = Some ''m''
      \<and> (\<exists>s'. save_train_stats
            (self0\<lparr>impatience := 3, valid_reports := [JObject [(''accuracy'', JFloat 1)]]\<rparr>)
            None ?e empty_sys = Inr s'
          \<and> trainstats_suffix ?cfg s' = ''.trainstats''
          \<and> (\<exists>new. (TrainLoop_init ?cfg single_worker s' :: exn + int train_loop) = Inr new))"
    by (simp add: run_defs save_train_stats_def write_file_def save_path_def train_stats_def
        obj_get_def)
  then obtain self0 :: "int train_loop" and s' and new :: "int train_loop" where
    i: "TrainLoop_init ?cfg single_worker empty_sys = Inr self0" and
    f: "train_time self0 = Timer 0" "preempted_epochs self0 = 0"
       "opt_model_file (self_opt self0) = Some ''m''" and
    sv: "save_train_stats
           (self0\<lparr>impatience := 3, valid_reports := [JObject [(''accuracy'', JFloat 1)]]\<rparr>)
           None ?e empty_sys = Inr s'" and
    sx: "trainstats_suffix ?cfg s' = ''.trainstats''" and
    n: "TrainLoop_init ?cfg single_worker s' = Inr new"
    by blast
  have t: "truthy (opt_model_file ?cfg)" by (simp add: truthy_def default_opts_def)
  have m: "opt_model_file ?cfg = opt_model_file (self_opt
      (self0\<lparr>impatience := 3, valid_reports := [JObject [(''accuracy'', JFloat 1)]]\<rparr>))"
    by (simp add: f default_opts_def)
  have sx': "trainstats_suffix ?cfg s'
      = (case None of None \<Rightarrow> [] | Some sfx \<Rightarrow> sfx) @ ''.trainstats''"
    using sx by simp
  from train_stats_round_trip [OF sv t m sx'] n
  have "total (train_time new) = timer_time (train_time
          (self0\<lparr>impatience := 3, valid_reports := [JObject [(''accuracy'', JFloat 1)]]\<rparr>)) (now ?e)
      \<and> preempted_epochs new = preempted_epochs
          (self0\<lparr>impatience := 3, valid_reports := [JObject [(''accuracy'', JFloat 1)]]\<rparr>)
            + real_of_int (num_workers ?e) * get_total_epochs ?e
      \<and> impatience new = impatience
          (self0\<lparr>impatience := 3, valid_reports := [JObject [(''accuracy'', JFloat 1)]]\<rparr>)
      \<and> valid_reports new = valid_reports
          (self0\<lparr>impatience := 3, valid_reports := [JObject [(''accuracy'', JFloat 1)]]\<rparr>)"
    by blast
  then have "total (train_time new) = 7 \<and> preempted_epochs new = 2 \<and> impatience new = 3
     \<and> valid_reports new = [JObject [(''accuracy'', JFloat 1)]]"
    by (simp add: f timer_time_def Timer_def single_worker_def)
  with i sv n show ?thesis by blast
qed

text \<open>
  C9. The constructor sets the optimisation direction from the metric name, whatever
  mode was given: \<^verbatim>\<open>min\<close> (direction -1) for \<^verbatim>\<open>loss\<close>, \<^verbatim>\<open>ppl\<close> and \<^verbatim>\<open>mean_rank\<close>,
  \<^verbatim>\<open>max\<close> (direction 1) for \<^verbatim>\<open>accuracy\<close>, \<^verbatim>\<open>hits@1\<close>, \<^verbatim>\<open>hits@5\<close>, \<^verbatim>\<open>f1\<close> and
  \<^verbatim>\<open>bleu\<close>, and \<^verbatim>\<open>max\<close> for any other metric when no mode was given.
\<close>

theorem validation_mode_forced_by_metric:
  assumes "TrainLoop_init cfg e s = Inr self"
  shows "(opt_validation_metric cfg \<in> {''loss'', ''ppl'', ''mean_rank''} \<longrightarrow>
            opt_validation_metric_mode (self_opt self) = Some ''min'' \<and> valid_optim self = - 1)
       \<and> (opt_validation_metric cfg \<in> {''accuracy'', ''hits@1'', ''hits@5'', ''f1'', ''bleu''} \<longrightarrow>
            opt_validation_metric_mode (self_opt self) = Some ''max'' \<and> valid_optim self = 1)
       \<and> (opt_validation_metric cfg \<notin> {''loss'', ''ppl'', ''mean_rank''}
            \<and> opt_validation_metric cfg \<notin> {''accuracy'', ''hits@1'', ''hits@5'', ''f1'', ''bleu''}
            \<and> opt_validation_metric_mode cfg = None \<longrightarrow>
            opt_validation_metric_mode (self_opt self) = Some ''max'' \<and> valid_optim self = 1)"
proof -
  from TrainLoop_init_config [OF assms] obtain cfg' where
    c: "opt_validation_metric cfg' = opt_validation_metric cfg"
       "opt_validation_metric_mode cfg' = opt_validation_metric_mode cfg"
       "self_opt self = smart_defaults cfg'"
       "valid_optim self =
          (if opt_validation_metric_mode (smart_defaults cfg') = Some ''max'' then 1 else - 1)"
    by blast
  show ?thesis
    by (simp add: c smart_defaults_mode)
qed

text \<open>The user asks for \<^verbatim>\<open>max\<close> with the metric \<^verbatim>\<open>loss\<close>; the loop minimises.\<close>

theorem validation_mode_forced_by_metric_witness:
  "\<exists>self0.
     (TrainLoop_init (default_opts\<lparr>opt_validation_metric := ''loss'',
          opt_validation_metric_mode := Some ''max'', opt_dict_file := Some ''d''\<rparr>)
        single_worker empty_sys :: exn + int train_loop) = Inr self0
     \<and> opt_validation_metric_mode (self_opt self0) = Some ''min'' \<and> valid_optim self0 = - 1"
proof -
  let ?cfg = "default_opts\<lparr>opt_validation_metric := ''loss'',
          opt_validation_metric_mode := Some ''max'', opt_dict_file := Some ''d''\<rparr>"
  have "\<exists>self0. (TrainLoop_init ?cfg single_worker empty_sys :: exn + int train_loop) = Inr self0"
    by (simp add: run_defs)
  then obtain self0 :: "int train_loop" where
    i: "TrainLoop_init ?cfg single_worker empty_sys = Inr self0" by blast
  have m: "opt_validation_metric ?cfg \<in> {''loss'', ''ppl'', ''mean_rank''}"
    by (simp add: default_opts_def)
  from validation_mode_forced_by_metric [OF i] m
  have "opt_validation_metric_mode (self_opt self0) = Some ''min'' \<and> valid_optim self0 = - 1"
    by blast
  with i show ?thesis by blast
qed

text \<open>
  C10. For each of \<^verbatim>\<open>num_epochs\<close>, \<^verbatim>\<open>max_train_time\<close>, \<^verbatim>\<open>log_every_n_secs\<close>,
  \<^verbatim>\<open>validation_every_n_secs\<close>, \<^verbatim>\<open>save_every_n_secs\<close> and
  \<^verbatim>\<open>validation_every_n_epochs\<close>: when the option is at most 0, the constructor sets the
  threshold to infinity, no reading reaches or exceeds it, and in any run of the loop
  from the constructed object the trigger does not fire: no epoch stop, no time stop, no
  log entry other than the one of the epoch stop, no validation through that interval,
  no periodic checkpoint.
\<close>

theorem nonpositive_option_disables_trigger:
  assumes "TrainLoop_init cfg e0 s0 = Inr self0"
    and "train_run ops es self0 s = Some (Inr (fl, acts, self, s'))"
  shows "(opt_num_epochs cfg \<le> 0 \<longrightarrow>
            max_num_epochs self0 = PosInf \<and> max_num_epochs self = PosInf
            \<and> (\<forall>x. \<not> reaches x (max_num_epochs self))
            \<and> Print_num_epochs_completed \<notin> set acts)
       \<and> (opt_max_train_time cfg \<le> 0 \<longrightarrow>
            max_train_time self0 = PosInf \<and> max_train_time self = PosInf
            \<and> (\<forall>x. \<not> exceeds x (max_train_time self))
            \<and> Print_max_train_time_elapsed \<notin> set acts)
       \<and> (opt_log_every_n_secs cfg \<le> 0 \<longrightarrow>
            log_every_n_secs self0 = PosInf \<and> log_every_n_secs self = PosInf
            \<and> (\<forall>x. \<not> exceeds x (log_every_n_secs self))
            \<and> (Log \<in> set acts \<longrightarrow> Print_num_epochs_completed \<in> set acts))
       \<and> (opt_validation_every_n_secs cfg \<le> 0 \<longrightarrow>
            val_every_n_secs self0 = PosInf \<and> val_every_n_secs self = PosInf
            \<and> (\<forall>x. \<not> exceeds x (val_every_n_secs self))
            \<and> (Validate \<in> set acts \<longrightarrow> val_every_n_epochs self \<noteq> PosInf))
       \<and> (opt_save_every_n_secs cfg \<le> 0 \<longrightarrow>
            save_every_n_secs self0 = PosInf \<and> save_every_n_secs self = PosInf
            \<and> (\<forall>x. \<not> exceeds x (save_every_n_secs self))
            \<and> Save_checkpoint \<notin> set acts)
       \<and> (opt_validation_every_n_epochs cfg \<le> 0 \<longrightarrow>
            val_every_n_epochs self0 = PosInf \<and> val_every_n_epochs self = PosInf
            \<and> (\<forall>x. \<not> reaches x (val_every_n_epochs self))
            \<and> (Validate \<in> set acts \<longrightarrow> val_every_n_secs self \<noteq> PosInf))"
proof -
  from TrainLoop_init_config [OF assms(1)] have
    t: "max_num_epochs self0 = positive_or_inf (opt_num_epochs cfg)"
       "max_train_time self0 = positive_or_inf (opt_max_train_time cfg)"
       "log_every_n_secs self0 = positive_or_inf (opt_log_every_n_secs cfg)"
       "val_every_n_secs self0 = positive_or_inf (opt_validation_every_n_secs cfg)"
       "save_every_n_secs self0 = positive_or_inf (opt_save_every_n_secs cfg)"
       "val_every_n_epochs self0 = positive_or_inf (opt_validation_every_n_epochs cfg)"
    by blast+
  from train_run_acts [OF assms(2)] have sc: "same_config self0 self" and ok: "acts_ok self0 acts"
    by simp_all
  have e: "max_num_epochs self = max_num_epochs self0"
       "max_train_time self = max_train_time self0"
       "log_every_n_secs self = log_every_n_secs self0"
       "val_every_n_secs self = val_every_n_secs self0"
       "save_every_n_secs self = save_every_n_secs self0"
       "val_every_n_epochs self = val_every_n_epochs self0"
    using sc by (simp_all add: same_config_def)
  have p: "opt_num_epochs cfg \<le> 0 \<Longrightarrow> max_num_epochs self0 = PosInf"
    "opt_max_train_time cfg \<le> 0 \<Longrightarrow> max_train_time self0 = PosInf"
    "opt_log_every_n_secs cfg \<le> 0 \<Longrightarrow> log_every_n_secs self0 = PosInf"
    "opt_validation_every_n_secs cfg \<le> 0 \<Longrightarrow> val_every_n_secs self0 = PosInf"
    "opt_save_every_n_secs cfg \<le> 0 \<Longrightarrow> save_every_n_secs self0 = PosInf"
    "opt_validation_every_n_epochs cfg \<le> 0 \<Longrightarrow> val_every_n_epochs self0 = PosInf"
    by (simp_all add: t positive_or_inf_def)
  from ok have q:
    "Print_num_epochs_completed \<in> set acts \<Longrightarrow> max_num_epochs self0 \<noteq> PosInf"
    "Print_max_train_time_elapsed \<in> set acts \<Longrightarrow> max_train_time self0 \<noteq> PosInf"
    "Log \<in> set acts \<Longrightarrow>
       Print_num_epochs_completed \<in> set acts \<or> log_every_n_secs self0 \<noteq> PosInf"
    "Validate \<in> set acts \<Longrightarrow>
       val_every_n_secs self0 \<noteq> PosInf \<or> val_every_n_epochs self0 \<noteq> PosInf"
    "Save_checkpoint \<in> set acts \<Longrightarrow> save_every_n_secs self0 \<noteq> PosInf"
    by (simp_all add: acts_ok_def)
  show ?thesis
    unfolding e using p q by (intro conjI impI allI) auto
qed

text \<open>With the defaults of \<^verbatim>\<open>setup_args\<close> only the log interval is positive: two
  iterations at time 5 make one log entry and nothing else.\<close>

theorem nonpositive_option_disables_trigger_witness:
  "\<exists>self0 self. 
     (TrainLoop_init (default_opts\<lparr>opt_dict_file := Some ''d''\<rparr>) single_worker empty_sys
        :: exn + int train_loop) = Inr self0
     \<and> train_run (counting 3) [single_worker\<lparr>now := 5\<rparr>, single_worker\<lparr>now := 5\<rparr>] self0
          empty_sys = Some (Inr (Continue, [Log], self, empty_sys))
     \<and> max_num_epochs self = PosInf \<and> max_train_time self = PosInf
     \<and> val_every_n_secs self = PosInf \<and> save_every_n_secs self = PosInf
     \<and> val_every_n_epochs self = PosInf"
proof -
  let ?cfg = "default_opts\<lparr>opt_dict_file := Some ''d''\<rparr>"
  let ?es = "[single_worker\<lparr>now := 5\<rparr>, single_worker\<lparr>now := 5\<rparr>]"
  have "\<exists>self0. (TrainLoop_init ?cfg single_worker empty_sys :: exn + int train_loop) = Inr self0
       \<and> (\<exists>self. train_run (counting 3) ?es self0 empty_sys
             = Some (Inr (Continue, [Log], self, empty_sys)))"
    by (simp add: run_defs train_iteration_def train_validate_def train_checkpoint_def
        log_entry_def)
  then obtain self0 :: "int train_loop" and self where
    i: "TrainLoop_init ?cfg single_worker empty_sys = Inr self0" and
    r: "train_run (counting 3) ?es self0 empty_sys = Some (Inr (Continue, [Log], self, empty_sys))"
    by blast
  have o: "opt_num_epochs ?cfg \<le> 0" "opt_max_train_time ?cfg \<le> 0"
    "opt_validation_every_n_secs ?cfg \<le> 0" "opt_save_every_n_secs ?cfg \<le> 0"
    "opt_validation_every_n_epochs ?cfg \<le> 0"
    by (simp_all add: default_opts_def)
  from nonpositive_option_disables_trigger [OF i r] o
  have "max_num_epochs self = PosInf \<and> max_train_time self = PosInf
     \<and> val_every_n_secs self = PosInf \<and> save_every_n_secs self = PosInf
     \<and> val_every_n_epochs self = PosInf"
    by blast
  with i r show ?thesis by blast
qed

end
